theory Spec2Isabelle
  imports Complex_Main
begin

section \<open>The WebGL triangle demos: data model\<close>

text \<open>
  The repository holds three programs, each a class \<open>App\<close> followed by \<open>new App()\<close>:
  \<^item> \<open>src/unnamed/part_000\<close>: the constructor acquires the context and clears the screen;
  \<^item> \<open>src/src/cube.ts\<close>: the flat (2-D) triangle, redrawn by a frame loop;
  \<^item> \<open>src/unnamed/part_001\<close>: the rotating (3-D) triangle.

  JavaScript numbers are modelled as mathematical reals (rounding of doubles and of
  \<open>Float32Array\<close> elements is outside the model); \<open>Date.now()\<close> is a natural number of
  milliseconds. DOM elements, WebGL contexts and WebGL objects are identified by
  natural numbers. A \<open>Float32Array\<close> is the list of its elements.
\<close>

datatype source_file = Part_000 | Cube | Part_001

type_synonym canvas = nat
type_synonym glcontext = nat
type_synonym glshader = nat
type_synonym glprogram = nat
type_synonym glbuffer = nat
type_synonym uniform_location = nat
type_synonym mat = "real list"

datatype error = TypeError

datatype shader_type = VERTEX_SHADER | FRAGMENT_SHADER
datatype buffer_bit = COLOR_BUFFER_BIT | DEPTH_BUFFER_BIT
datatype shader_pname = COMPILE_STATUS
datatype program_pname = LINK_STATUS | VALIDATE_STATUS
datatype buffer_target = ARRAY_BUFFER
datatype buffer_usage = STATIC_DRAW
datatype gl_type = FLOAT
datatype draw_mode = TRIANGLES

text \<open>
  The calls the programs make on a \<open>WebGLRenderingContext\<close>. An argument that the
  source reads from a field and that WebGL accepts as \<open>null\<close> is an option.
\<close>

datatype gl_call =
    ClearColor real real real real
  | Clear "buffer_bit set"
  | CreateShader shader_type
  | ShaderSource glshader string
  | CompileShader glshader
  | GetShaderParameter glshader shader_pname
  | GetShaderInfoLog glshader
  | CreateProgram
  | AttachShader glprogram glshader
  | LinkProgram glprogram
  | GetProgramParameter glprogram program_pname
  | GetProgramInfoLog glprogram
  | ValidateProgram glprogram
  | CreateBuffer
  | BindBuffer buffer_target glbuffer
  | BufferData buffer_target "real list" buffer_usage
  | GetAttribLocation glprogram string
  | VertexAttribPointer int nat gl_type bool nat nat
  | EnableVertexAttribArray int
  | UseProgram "glprogram option"
  | GetUniformLocation glprogram string
  | UniformMatrix4fv "uniform_location option" bool mat
  | DrawArrays draw_mode nat nat

text \<open>
  The closure \<open>() => loop()\<close> handed to \<open>requestAnimationFrame\<close>, with what it
  captures: \<open>this\<close> and, in part_001, the local \<open>identityMatrix\<close>.
\<close>

datatype callback = Loop_cube nat | Loop_part001 nat mat

fun self :: "callback \<Rightarrow> nat" where
  "self (Loop_cube this) = this"
| "self (Loop_part001 this identityMatrix) = this"

text \<open>Everything observable the programs do, in order.\<close>

datatype event =
    GetElementById string
  | GetContext canvas string
  | GL glcontext gl_call
  | ConsoleError string string
  | RequestAnimationFrame callback
  | Callback callback

text \<open>The fields of an \<open>App\<close> object; a field not yet assigned is \<open>None\<close>.\<close>

record app =
  canvas :: "canvas option"
  gl :: "glcontext option"
  vertexShader :: "glshader option"
  fragmentShader :: "glshader option"
  program :: "glprogram option"
  worldMatrix :: "mat option"
  worldAttributeLocation :: "uniform_location option"
  running :: bool

text \<open>The state of one WebGL context, as far as the programs write it.\<close>

record gl_state =
  clear_color :: "real \<times> real \<times> real \<times> real"
  array_buffer :: "glbuffer option"
  buffer_data :: "glbuffer \<Rightarrow> real list option"

text \<open>
  The process: the \<open>App\<close> objects by reference, the WebGL contexts, the log of events and
  the animation-frame callbacks not yet run.
\<close>

record world =
  store :: "nat \<Rightarrow> app"
  next_obj :: nat
  next_handle :: nat
  gls :: "glcontext \<Rightarrow> gl_state"
  trace :: "event list"
  queue :: "callback list"

text \<open>
  What the browser and the driver answer. These are parameters: the theorems hold for
  every host. \<open>getContext_of c name\<close> is the context \<open>c.getContext(name)\<close> returns.
\<close>

record host =
  elementById :: "string \<Rightarrow> canvas option"
  getContext_of :: "canvas \<Rightarrow> string \<Rightarrow> glcontext option"
  compileStatus :: "glshader \<Rightarrow> bool"
  shaderInfoLog :: "glshader \<Rightarrow> string"
  linkStatus :: "glprogram \<Rightarrow> bool"
  validateStatus :: "glprogram \<Rightarrow> bool"
  programInfoLog :: "glprogram \<Rightarrow> string"
  attribLocation :: "glprogram \<Rightarrow> string \<Rightarrow> int"
  uniformLocation :: "glprogram \<Rightarrow> string \<Rightarrow> uniform_location option"

text \<open>
  The functions of the gl-matrix package the programs import, also parameters. Each
  takes the contents of \<open>out\<close> first and gives the contents of \<open>out\<close> afterwards.
\<close>

record gl_matrix =
  mat4_identity :: "mat \<Rightarrow> mat"
  mat4_lookAt :: "mat \<Rightarrow> real list \<Rightarrow> real list \<Rightarrow> real list \<Rightarrow> mat"
  mat4_perspective :: "mat \<Rightarrow> real \<Rightarrow> real \<Rightarrow> real \<Rightarrow> real \<Rightarrow> mat"
  mat4_rotate :: "mat \<Rightarrow> mat \<Rightarrow> real \<Rightarrow> real list \<Rightarrow> mat"
  toRadian :: "real \<Rightarrow> real"

section \<open>Sequencing with exceptions\<close>

type_synonym 'a result = "(error + 'a) \<times> world"

definition ok :: "'a \<Rightarrow> world \<Rightarrow> 'a result" where
  "ok x w = (Inr x, w)"

definition throw :: "error \<Rightarrow> world \<Rightarrow> 'a result" where
  "throw e w = (Inl e, w)"

definition andThen :: "(world \<Rightarrow> 'a result) \<Rightarrow> ('a \<Rightarrow> world \<Rightarrow> 'b result) \<Rightarrow> world \<Rightarrow> 'b result" where
  "andThen f k w = (case f w of (Inl e, w') \<Rightarrow> (Inl e, w') | (Inr x, w') \<Rightarrow> k x w')"

fun seq :: "(world \<Rightarrow> unit result) list \<Rightarrow> world \<Rightarrow> unit result" where
  "seq [] w = (Inr (), w)"
| "seq (f # fs) w = (case f w of (Inl e, w') \<Rightarrow> (Inl e, w') | (Inr u, w') \<Rightarrow> seq fs w')"

definition log :: "event \<Rightarrow> world \<Rightarrow> world" where
  "log e w = w\<lparr>trace := trace w @ [e]\<rparr>"

text \<open>Reading a field to pass it where \<open>undefined\<close> is not accepted.\<close>

definition field :: "(app \<Rightarrow> 'a option) \<Rightarrow> nat \<Rightarrow> world \<Rightarrow> 'a result" where
  "field f this w = (case f (store w this) of None \<Rightarrow> (Inl TypeError, w) | Some x \<Rightarrow> (Inr x, w))"

definition assign :: "nat \<Rightarrow> (app \<Rightarrow> app) \<Rightarrow> world \<Rightarrow> unit result" where
  "assign this upd w = (Inr (), w\<lparr>store := (store w)(this := upd (store w this))\<rparr>)"

section \<open>The WebGL context\<close>

text \<open>
  A WebGL call reports an error through the error flag of the context and raises nothing;
  an object it creates is new. Of the state of a context the model keeps what the programs
  write: the clear colour, the array buffer binding and the data of each buffer.
\<close>

fun gl_effect :: "gl_call \<Rightarrow> gl_state \<Rightarrow> gl_state" where
  "gl_effect (ClearColor r g b a) s = s\<lparr>clear_color := (r, g, b, a)\<rparr>"
| "gl_effect (BindBuffer ARRAY_BUFFER b) s = s\<lparr>array_buffer := Some b\<rparr>"
| "gl_effect (BufferData ARRAY_BUFFER d u) s =
     (case array_buffer s of None \<Rightarrow> s
      | Some b \<Rightarrow> s\<lparr>buffer_data := (buffer_data s)(b \<mapsto> d)\<rparr>)"
| "gl_effect c s = s"

definition perform :: "glcontext \<Rightarrow> gl_call \<Rightarrow> world \<Rightarrow> world" where
  "perform g c w = w\<lparr>gls := (gls w)(g := gl_effect c (gls w g)), trace := trace w @ [GL g c]\<rparr>"

text \<open>\<open>this.gl.f(...)\<close>: a TypeError when \<open>this.gl\<close> is null or undefined.\<close>

definition glcall :: "nat \<Rightarrow> gl_call \<Rightarrow> world \<Rightarrow> unit result" where
  "glcall this c w =
     (case gl (store w this) of None \<Rightarrow> (Inl TypeError, w)
      | Some g \<Rightarrow> (Inr (), perform g c w))"

text \<open>A call that answers: the call is logged and the host's answer returned.\<close>

definition glquery :: "nat \<Rightarrow> gl_call \<Rightarrow> 'a \<Rightarrow> world \<Rightarrow> 'a result" where
  "glquery this c answer w =
     (case gl (store w this) of None \<Rightarrow> (Inl TypeError, w)
      | Some g \<Rightarrow> (Inr answer, perform g c w))"

text \<open>A call that creates a WebGL object: the object is fresh.\<close>

definition glcreate :: "nat \<Rightarrow> gl_call \<Rightarrow> world \<Rightarrow> nat result" where
  "glcreate this c w =
     (case gl (store w this) of None \<Rightarrow> (Inl TypeError, w)
      | Some g \<Rightarrow> (Inr (next_handle w), perform g c (w\<lparr>next_handle := Suc (next_handle w)\<rparr>)))"

definition console_error :: "string \<Rightarrow> string \<Rightarrow> world \<Rightarrow> unit result" where
  "console_error msg info w = (Inr (), log (ConsoleError msg info) w)"

definition requestAnimationFrame :: "callback \<Rightarrow> world \<Rightarrow> unit result" where
  "requestAnimationFrame cb w = (Inr (), log (RequestAnimationFrame cb) (w\<lparr>queue := queue w @ [cb]\<rparr>))"

text \<open>Reading a field where any value, also \<open>undefined\<close>, is accepted.\<close>

definition read :: "(app \<Rightarrow> 'a) \<Rightarrow> nat \<Rightarrow> world \<Rightarrow> 'a result" where
  "read f this w = (Inr (f (store w this)), w)"

definition getElementById :: "host \<Rightarrow> string \<Rightarrow> world \<Rightarrow> canvas option result" where
  "getElementById h ident w = (Inr (elementById h ident), log (GetElementById ident) w)"

text \<open>\<open>this.canvas.getContext(name)\<close>: a TypeError when \<open>this.canvas\<close> is null.\<close>

definition getContext :: "host \<Rightarrow> nat \<Rightarrow> string \<Rightarrow> world \<Rightarrow> glcontext option result" where
  "getContext h this name w =
     (case canvas (store w this) of None \<Rightarrow> (Inl TypeError, w)
      | Some c \<Rightarrow> (Inr (getContext_of h c name), log (GetContext c name) w))"

definition getAttribLocation :: "host \<Rightarrow> nat \<Rightarrow> string \<Rightarrow> world \<Rightarrow> int result" where
  "getAttribLocation h this name =
     andThen (field program this) (\<lambda>p. glquery this (GetAttribLocation p name) (attribLocation h p name))"

definition getUniformLocation :: "host \<Rightarrow> nat \<Rightarrow> string \<Rightarrow> world \<Rightarrow> uniform_location option result" where
  "getUniformLocation h this name =
     andThen (field program this) (\<lambda>p. glquery this (GetUniformLocation p name) (uniformLocation h p name))"

definition getProgramParameter :: "host \<Rightarrow> nat \<Rightarrow> program_pname \<Rightarrow> world \<Rightarrow> bool result" where
  "getProgramParameter h this pname =
     andThen (field program this) (\<lambda>p. glquery this (GetProgramParameter p pname)
       (case pname of LINK_STATUS \<Rightarrow> linkStatus h p | VALIDATE_STATUS \<Rightarrow> validateStatus h p))"

definition getProgramInfoLog :: "host \<Rightarrow> nat \<Rightarrow> world \<Rightarrow> string result" where
  "getProgramInfoLog h this =
     andThen (field program this) (\<lambda>p. glquery this (GetProgramInfoLog p) (programInfoLog h p))"

section \<open>The class App\<close>

definition BYTES_PER_ELEMENT :: nat where
  "BYTES_PER_ELEMENT = 4"

definition newline :: char where
  "newline = CHR 0x0A"

fun template_literal :: "string list \<Rightarrow> string" where
  "template_literal [] = []"
| "template_literal [l] = l"
| "template_literal (l # ls) = l @ newline # template_literal ls"

fun vertexShaderSource :: "source_file \<Rightarrow> string" where
  "vertexShaderSource Part_001 = template_literal
     ['''',
      ''        precision mediump float;'',
      '''',
      ''        // input - varying per vertex'',
      ''        attribute vec3 vertPosition; // x, y and z'',
      ''        attribute vec3 vertColor;'',
      '''',
      ''        // uniform stays the same for all vertices'',
      ''        uniform mat4 matrixWorld;'',
      ''        uniform mat4 matrixView;'',
      ''        uniform mat4 matrixProjection; '',
      '''',
      ''        // output'',
      ''        varying vec3 fragColor;'',
      '''',
      ''        void main(){'',
      ''            fragColor = vertColor;'',
      ''            // 0.0 = z-index, last one always 1'',
      '''',
      ''            // multiply from right'',
      ''            gl_Position = matrixProjection * matrixView * matrixWorld * vec4(vertPosition, 1.0);'',
      ''        }'',
      ''        '']"
| "vertexShaderSource p = template_literal
     ['''',
      ''        precision mediump float;'',
      '''',
      ''        // input'',
      ''        attribute vec2 vertPosition;'',
      ''        attribute vec3 vertColor;'',
      '''',
      ''        // output'',
      ''        varying vec3 fragColor;'',
      '''',
      ''        void main(){'',
      ''            fragColor = vertColor;'',
      ''            // 0.0 = z-index, last one always 1'',
      ''            gl_Position = vec4(vertPosition, 0.0, 1.0);'',
      ''        }'',
      ''        '']"

definition fragmentShaderSource :: string where
  "fragmentShaderSource = template_literal
     ['''',
      ''        precision mediump float;'',
      '''',
      ''        // input'',
      ''        varying vec3 fragColor;'',
      '''',
      ''        void main(){'',
      ''            // only output from fragment shader, color of a specific pixel'',
      ''            gl_FragColor = vec4(fragColor, 1.0);'',
      ''        }'',
      '''',
      ''        '']"

definition setClearColor :: "nat \<Rightarrow> world \<Rightarrow> unit result" where
  "setClearColor this = glcall this (ClearColor 0.75 0.85 0.8 1)"

definition clearScreen :: "nat \<Rightarrow> world \<Rightarrow> unit result" where
  "clearScreen this = glcall this (Clear ({COLOR_BUFFER_BIT} \<union> {DEPTH_BUFFER_BIT}))"

definition addShader :: "host \<Rightarrow> nat \<Rightarrow> string \<Rightarrow> shader_type \<Rightarrow> world \<Rightarrow> glshader result" where
  "addShader h this shaderSource type =
     andThen (glcreate this (CreateShader type)) (\<lambda>shader.
     andThen (glcall this (ShaderSource shader shaderSource)) (\<lambda>_.
     andThen (glcall this (CompileShader shader)) (\<lambda>_.
     andThen (glquery this (GetShaderParameter shader COMPILE_STATUS) (compileStatus h shader)) (\<lambda>status.
     andThen (if \<not> status
              then andThen (glquery this (GetShaderInfoLog shader) (shaderInfoLog h shader))
                     (\<lambda>info. console_error ''Error compiling shader '' info)
              else ok ()) (\<lambda>_.
     ok shader)))))"

definition createShaders :: "host \<Rightarrow> source_file \<Rightarrow> nat \<Rightarrow> world \<Rightarrow> unit result" where
  "createShaders h p this =
     andThen (addShader h this (vertexShaderSource p) VERTEX_SHADER) (\<lambda>s.
     andThen (assign this (\<lambda>a. a\<lparr>vertexShader := Some s\<rparr>)) (\<lambda>_.
     andThen (addShader h this fragmentShaderSource FRAGMENT_SHADER) (\<lambda>s.
     assign this (\<lambda>a. a\<lparr>fragmentShader := Some s\<rparr>))))"

definition createProgram :: "host \<Rightarrow> nat \<Rightarrow> world \<Rightarrow> unit result" where
  "createProgram h this =
     andThen (glcreate this CreateProgram) (\<lambda>p.
     andThen (assign this (\<lambda>a. a\<lparr>program := Some p\<rparr>)) (\<lambda>_.
     andThen (andThen (field program this) (\<lambda>p. andThen (field vertexShader this) (\<lambda>s.
       glcall this (AttachShader p s)))) (\<lambda>_.
     andThen (andThen (field program this) (\<lambda>p. andThen (field fragmentShader this) (\<lambda>s.
       glcall this (AttachShader p s)))) (\<lambda>_.
     andThen (andThen (field program this) (\<lambda>p. glcall this (LinkProgram p))) (\<lambda>_.
     andThen (getProgramParameter h this LINK_STATUS) (\<lambda>status.
     andThen (if \<not> status
              then andThen (getProgramInfoLog h this) (\<lambda>info. console_error ''Could not link program'' info)
              else ok ()) (\<lambda>_.
     andThen (andThen (field program this) (\<lambda>p. glcall this (ValidateProgram p))) (\<lambda>_.
     andThen (getProgramParameter h this VALIDATE_STATUS) (\<lambda>status.
     if \<not> status
     then andThen (getProgramInfoLog h this) (\<lambda>info. console_error ''ERROR invalidating program'' info)
     else ok ())))))))))"

text \<open>The array literal \<open>triangleVertices\<close> of cube.ts (x, y, R, G, B) and of part_001 (x, y, z, R, G, B).\<close>

fun triangleVertices :: "source_file \<Rightarrow> real list" where
  "triangleVertices Part_001 =
     [0.0, 0.5, 0.0, 1.0, 0.0, 0.0,
      -0.5, -0.5, 0.0, 0.0, 1.0, 0.0,
      0.5, -0.5, 0.0, 0.0, 0.0, 1.0]"
| "triangleVertices p =
     [0, 0.5, 1, 0, 0,
      - 0.5, -0.5, 0, 1, 0,
      0.5, -0.5, 0, 0, 1]"

definition createBuffer_cube :: "host \<Rightarrow> nat \<Rightarrow> world \<Rightarrow> unit result" where
  "createBuffer_cube h this =
     andThen (glcreate this CreateBuffer) (\<lambda>triangleVertexBuffer.
     andThen (glcall this (BindBuffer ARRAY_BUFFER triangleVertexBuffer)) (\<lambda>_.
     andThen (glcall this (BufferData ARRAY_BUFFER (triangleVertices Cube) STATIC_DRAW)) (\<lambda>_.
     andThen (getAttribLocation h this ''vertPosition'') (\<lambda>positionAttributeLocation.
     andThen (getAttribLocation h this ''vertColor'') (\<lambda>colorAttributeLocation.
     seq [glcall this (VertexAttribPointer positionAttributeLocation 2 FLOAT False
            (5 * BYTES_PER_ELEMENT) 0),
          glcall this (VertexAttribPointer colorAttributeLocation 3 FLOAT False
            (5 * BYTES_PER_ELEMENT) (2 * BYTES_PER_ELEMENT)),
          glcall this (EnableVertexAttribArray positionAttributeLocation),
          glcall this (EnableVertexAttribArray colorAttributeLocation)])))))"

definition createBuffer_part001 :: "host \<Rightarrow> gl_matrix \<Rightarrow> nat \<Rightarrow> world \<Rightarrow> unit result" where
  "createBuffer_part001 h m this =
     andThen (glcreate this CreateBuffer) (\<lambda>triangleVertexBuffer.
     andThen (glcall this (BindBuffer ARRAY_BUFFER triangleVertexBuffer)) (\<lambda>_.
     andThen (glcall this (BufferData ARRAY_BUFFER (triangleVertices Part_001) STATIC_DRAW)) (\<lambda>_.
     andThen (getAttribLocation h this ''vertPosition'') (\<lambda>positionAttributeLocation.
     andThen (getAttribLocation h this ''vertColor'') (\<lambda>colorAttributeLocation.
     andThen (seq
         [glcall this (VertexAttribPointer positionAttributeLocation 3 FLOAT False
            (6 * BYTES_PER_ELEMENT) 0),
          glcall this (VertexAttribPointer colorAttributeLocation 3 FLOAT False
            (6 * BYTES_PER_ELEMENT) (3 * BYTES_PER_ELEMENT)),
          glcall this (EnableVertexAttribArray positionAttributeLocation),
          glcall this (EnableVertexAttribArray colorAttributeLocation)]) (\<lambda>_.
     andThen (andThen (read program this) (\<lambda>p. glcall this (UseProgram p))) (\<lambda>_.
     andThen (getUniformLocation h this ''matrixWorld'') (\<lambda>matWorldLocation.
     andThen (assign this (\<lambda>a. a\<lparr>worldAttributeLocation := matWorldLocation\<rparr>)) (\<lambda>_.
     andThen (getUniformLocation h this ''matrixView'') (\<lambda>matViewLocation.
     andThen (getUniformLocation h this ''matrixProjection'') (\<lambda>matProjectionLocation.
     andThen (assign this (\<lambda>a. a\<lparr>worldMatrix := Some (replicate 16 0)\<rparr>)) (\<lambda>_.
     andThen (andThen (field worldMatrix this) (\<lambda>out.
       assign this (\<lambda>a. a\<lparr>worldMatrix := Some (mat4_identity m out)\<rparr>))) (\<lambda>_.
     andThen (field worldMatrix this) (\<lambda>worldMatrix.
     (let viewMatrix = mat4_lookAt m (replicate 16 0) [0, 0, -2] [0, 0, 0] [0, 1, 0];
          projectionMatrix = mat4_perspective m (replicate 16 0) (toRadian m 45) (800 / 600) 0.1 1000.1
      in seq [glcall this (UniformMatrix4fv matWorldLocation False worldMatrix),
              glcall this (UniformMatrix4fv matViewLocation False viewMatrix),
              glcall this (UniformMatrix4fv matProjectionLocation False projectionMatrix)])))))))))))))))"

text \<open>
  \<open>stop()\<close>. The class of part_000 has no such method: calling it there is a TypeError.
\<close>

definition stop :: "source_file \<Rightarrow> nat \<Rightarrow> world \<Rightarrow> unit result" where
  "stop p this =
     (if p = Part_000 then throw TypeError
      else assign this (\<lambda>a. a\<lparr>running := False\<rparr>))"

text \<open>The body of the closure \<open>loop\<close> of cube.ts.\<close>

definition loop_cube :: "nat \<Rightarrow> world \<Rightarrow> unit result" where
  "loop_cube this =
     andThen (clearScreen this) (\<lambda>_.
     andThen (andThen (read program this) (\<lambda>p. glcall this (UseProgram p))) (\<lambda>_.
     andThen (glcall this (DrawArrays TRIANGLES 0 3)) (\<lambda>_.
     andThen (read running this) (\<lambda>r.
     if r then requestAnimationFrame (Loop_cube this) else ok ()))))"

text \<open>
  The body of the closure \<open>loop\<close> of part_001; \<open>now\<close> is what \<open>Date.now()\<close> returns.
  \<open>mat4.rotate\<close> writes into the array \<open>this.worldMatrix\<close> refers to.
\<close>

definition loop_part001 :: "gl_matrix \<Rightarrow> nat \<Rightarrow> mat \<Rightarrow> nat \<Rightarrow> world \<Rightarrow> unit result" where
  "loop_part001 m this identityMatrix now =
     (let angle = real now / 1000 / 6 * 2 * pi in
      andThen (andThen (field worldMatrix this) (\<lambda>out.
        assign this (\<lambda>a. a\<lparr>worldMatrix := Some (mat4_rotate m out identityMatrix angle [0, 1, 0])\<rparr>))) (\<lambda>_.
      andThen (andThen (read worldAttributeLocation this) (\<lambda>location.
        andThen (field worldMatrix this) (\<lambda>worldMatrix.
        glcall this (UniformMatrix4fv location False worldMatrix)))) (\<lambda>_.
      andThen (clearScreen this) (\<lambda>_.
      andThen (glcall this (DrawArrays TRIANGLES 0 3)) (\<lambda>_.
      andThen (read running this) (\<lambda>r.
      if r then requestAnimationFrame (Loop_part001 this identityMatrix) else ok ()))))))"

definition mainRenderLoop_cube :: "nat \<Rightarrow> world \<Rightarrow> unit result" where
  "mainRenderLoop_cube this = loop_cube this"

definition mainRenderLoop_part001 :: "gl_matrix \<Rightarrow> nat \<Rightarrow> nat \<Rightarrow> world \<Rightarrow> unit result" where
  "mainRenderLoop_part001 m this now =
     (let identityMatrix = mat4_identity m (replicate 16 0)
      in loop_part001 m this identityMatrix now)"

text \<open>
  The first statements of the three constructors (the same in each file): the canvas is
  looked up, the context requested, and requested again under the second name when the
  first request gave none.
\<close>

definition acquire :: "host \<Rightarrow> nat \<Rightarrow> world \<Rightarrow> unit result" where
  "acquire h this =
     andThen (getElementById h ''game-surface'') (\<lambda>c.
     andThen (assign this (\<lambda>a. a\<lparr>canvas := c\<rparr>)) (\<lambda>_.
     andThen (getContext h this ''webgl'') (\<lambda>g.
     andThen (assign this (\<lambda>a. a\<lparr>gl := g\<rparr>)) (\<lambda>_.
     andThen (read gl this) (\<lambda>g.
     if g = None
     then andThen (getContext h this ''experimental-webgl'') (\<lambda>g. assign this (\<lambda>a. a\<lparr>gl := g\<rparr>))
     else ok ())))))"

fun constructor :: "host \<Rightarrow> gl_matrix \<Rightarrow> source_file \<Rightarrow> nat \<Rightarrow> nat \<Rightarrow> world \<Rightarrow> unit result" where
  "constructor h m Part_000 now this =
     seq [acquire h this, setClearColor this, clearScreen this]"
| "constructor h m Cube now this =
     seq [acquire h this, setClearColor this, clearScreen this,
          createShaders h Cube this, createProgram h this, createBuffer_cube h this,
          mainRenderLoop_cube this]"
| "constructor h m Part_001 now this =
     seq [acquire h this, setClearColor this, clearScreen this,
          createShaders h Part_001 this, createProgram h this, createBuffer_part001 h m this,
          mainRenderLoop_part001 m this now]"

text \<open>
  A new object has no field assigned, except \<open>running\<close>, which cube.ts and part_001
  initialise to true (part_000 declares no such field).
\<close>

definition blank :: "source_file \<Rightarrow> app" where
  "blank p = \<lparr>canvas = None, gl = None, vertexShader = None, fragmentShader = None,
     program = None, worldMatrix = None, worldAttributeLocation = None,
     running = (p \<noteq> Part_000)\<rparr>"

text \<open>\<open>new App()\<close>, run while \<open>Date.now()\<close> is \<open>now\<close>: the reference of the new object, or the exception.\<close>

definition App_new :: "host \<Rightarrow> gl_matrix \<Rightarrow> source_file \<Rightarrow> nat \<Rightarrow> world \<Rightarrow> nat result" where
  "App_new h m p now w =
     (let this = next_obj w
      in andThen (constructor h m p now this) (\<lambda>_. ok this)
           (w\<lparr>store := (store w)(this := blank p), next_obj := Suc this\<rparr>))"

section \<open>The process\<close>

text \<open>
  A process runs one of the three files, \<open>p\<close>. What happens to it from outside: a script
  constructs an \<open>App\<close> (the file itself does so once), calls \<open>stop()\<close> on an object, or
  the browser runs the oldest pending animation-frame callback; \<open>New\<close> and \<open>Fire\<close> carry what
  \<open>Date.now()\<close> returns meanwhile. JavaScript runs each of these to the end before the next.
  An exception that escapes ends that event only.
\<close>

datatype input = New nat | Stop nat | Fire nat

fun invoke :: "gl_matrix \<Rightarrow> callback \<Rightarrow> nat \<Rightarrow> world \<Rightarrow> unit result" where
  "invoke m (Loop_cube this) now = loop_cube this"
| "invoke m (Loop_part001 this identityMatrix) now = loop_part001 m this identityMatrix now"

fun step :: "host \<Rightarrow> gl_matrix \<Rightarrow> source_file \<Rightarrow> world \<Rightarrow> input \<Rightarrow> world" where
  "step h m p w (New now) = snd (App_new h m p now w)"
| "step h m p w (Stop this) = (if this < next_obj w then snd (stop p this w) else w)"
| "step h m p w (Fire now) =
     (case queue w of [] \<Rightarrow> w
      | cb # q \<Rightarrow> snd (invoke m cb now (log (Callback cb) (w\<lparr>queue := q\<rparr>))))"

definition run :: "host \<Rightarrow> gl_matrix \<Rightarrow> source_file \<Rightarrow> world \<Rightarrow> input list \<Rightarrow> world" where
  "run h m p w ins = foldl (step h m p) w ins"

definition default_gl :: gl_state where
  "default_gl = \<lparr>clear_color = (0, 0, 0, 0), array_buffer = None, buffer_data = (\<lambda>b. None)\<rparr>"

definition init_world :: world where
  "init_world = \<lparr>store = (\<lambda>r. blank Part_000), next_obj = 0, next_handle = 0,
     gls = (\<lambda>g. default_gl), trace = [], queue = []\<rparr>"

section \<open>What a successful construction leaves behind\<close>

text \<open>
  The events each method logs when \<open>this.gl\<close> is the context \<open>g\<close>, and the world a
  successful \<open>new App()\<close> produces. They are proved equal to what the code does
  (\<open>App_new_success\<close> below) and then used instead of running the code again.
\<close>

definition pastel :: "real \<times> real \<times> real \<times> real" where
  "pastel = (0.75, 0.85, 0.8, 1)"

definition both_buffers :: "buffer_bit set" where
  "both_buffers = {COLOR_BUFFER_BIT, DEPTH_BUFFER_BIT}"

definition acquired :: "host \<Rightarrow> canvas \<Rightarrow> glcontext option" where
  "acquired h c = (case getContext_of h c ''webgl'' of
      None \<Rightarrow> getContext_of h c ''experimental-webgl'' | Some g \<Rightarrow> Some g)"

definition acquire_events :: "host \<Rightarrow> canvas \<Rightarrow> event list" where
  "acquire_events h c =
     [GetElementById ''game-surface'', GetContext c ''webgl''] @
     (if getContext_of h c ''webgl'' = None then [GetContext c ''experimental-webgl''] else [])"

definition addShader_events :: "host \<Rightarrow> glcontext \<Rightarrow> glshader \<Rightarrow> string \<Rightarrow> shader_type \<Rightarrow> event list" where
  "addShader_events h g s src ty =
     [GL g (CreateShader ty), GL g (ShaderSource s src), GL g (CompileShader s),
      GL g (GetShaderParameter s COMPILE_STATUS)] @
     (if compileStatus h s then []
      else [GL g (GetShaderInfoLog s), ConsoleError ''Error compiling shader '' (shaderInfoLog h s)])"

definition createProgram_events :: "host \<Rightarrow> glcontext \<Rightarrow> glprogram \<Rightarrow> glshader \<Rightarrow> glshader \<Rightarrow> event list" where
  "createProgram_events h g pr vs fs =
     [GL g CreateProgram, GL g (AttachShader pr vs), GL g (AttachShader pr fs), GL g (LinkProgram pr),
      GL g (GetProgramParameter pr LINK_STATUS)] @
     (if linkStatus h pr then []
      else [GL g (GetProgramInfoLog pr), ConsoleError ''Could not link program'' (programInfoLog h pr)]) @
     [GL g (ValidateProgram pr), GL g (GetProgramParameter pr VALIDATE_STATUS)] @
     (if validateStatus h pr then []
      else [GL g (GetProgramInfoLog pr), ConsoleError ''ERROR invalidating program'' (programInfoLog h pr)])"

definition attrib_events :: "host \<Rightarrow> glcontext \<Rightarrow> glprogram \<Rightarrow> nat \<Rightarrow> nat \<Rightarrow> event list" where
  "attrib_events h g pr k stride =
     [GL g (GetAttribLocation pr ''vertPosition''), GL g (GetAttribLocation pr ''vertColor''),
      GL g (VertexAttribPointer (attribLocation h pr ''vertPosition'') k FLOAT False (stride * 4) 0),
      GL g (VertexAttribPointer (attribLocation h pr ''vertColor'') 3 FLOAT False (stride * 4) (k * 4)),
      GL g (EnableVertexAttribArray (attribLocation h pr ''vertPosition'')),
      GL g (EnableVertexAttribArray (attribLocation h pr ''vertColor''))]"

definition view_matrix :: "gl_matrix \<Rightarrow> mat" where
  "view_matrix m = mat4_lookAt m (replicate 16 0) [0, 0, -2] [0, 0, 0] [0, 1, 0]"

definition projection_matrix :: "gl_matrix \<Rightarrow> mat" where
  "projection_matrix m = mat4_perspective m (replicate 16 0) (toRadian m 45) (800 / 600) 0.1 1000.1"

definition uniform_events :: "host \<Rightarrow> gl_matrix \<Rightarrow> glcontext \<Rightarrow> glprogram \<Rightarrow> event list" where
  "uniform_events h m g pr =
     [GL g (UseProgram (Some pr)),
      GL g (GetUniformLocation pr ''matrixWorld''),
      GL g (GetUniformLocation pr ''matrixView''),
      GL g (GetUniformLocation pr ''matrixProjection''),
      GL g (UniformMatrix4fv (uniformLocation h pr ''matrixWorld'') False (mat4_identity m (replicate 16 0))),
      GL g (UniformMatrix4fv (uniformLocation h pr ''matrixView'') False (view_matrix m)),
      GL g (UniformMatrix4fv (uniformLocation h pr ''matrixProjection'') False (projection_matrix m))]"

definition createBuffer_events ::
  "host \<Rightarrow> gl_matrix \<Rightarrow> source_file \<Rightarrow> glcontext \<Rightarrow> glprogram \<Rightarrow> glbuffer \<Rightarrow> event list" where
  "createBuffer_events h m p g pr b =
     [GL g CreateBuffer, GL g (BindBuffer ARRAY_BUFFER b),
      GL g (BufferData ARRAY_BUFFER (triangleVertices p) STATIC_DRAW)] @
     (if p = Part_001 then attrib_events h g pr 3 6 @ uniform_events h m g pr
      else attrib_events h g pr 2 5)"

text \<open>The angle the loop of part_001 computes, as the source writes it.\<close>

definition angle_at :: "nat \<Rightarrow> real" where
  "angle_at now = real now / 1000 / 6 * 2 * pi"

definition first_frame ::
  "host \<Rightarrow> gl_matrix \<Rightarrow> source_file \<Rightarrow> glcontext \<Rightarrow> glprogram \<Rightarrow> nat \<Rightarrow> nat \<Rightarrow> event list" where
  "first_frame h m p g pr this now =
     (if p = Part_001
      then [GL g (UniformMatrix4fv (uniformLocation h pr ''matrixWorld'') False
              (mat4_rotate m (mat4_identity m (replicate 16 0)) (mat4_identity m (replicate 16 0))
                 (angle_at now) [0, 1, 0])),
            GL g (Clear both_buffers), GL g (DrawArrays TRIANGLES 0 3),
            RequestAnimationFrame (Loop_part001 this (mat4_identity m (replicate 16 0)))]
      else [GL g (Clear both_buffers), GL g (UseProgram (Some pr)), GL g (DrawArrays TRIANGLES 0 3),
            RequestAnimationFrame (Loop_cube this)])"

definition construction_events ::
  "host \<Rightarrow> gl_matrix \<Rightarrow> source_file \<Rightarrow> canvas \<Rightarrow> glcontext \<Rightarrow> nat \<Rightarrow> nat \<Rightarrow> nat \<Rightarrow> event list" where
  "construction_events h m p c g n this now =
     acquire_events h c @ [GL g (ClearColor 0.75 0.85 0.8 1), GL g (Clear both_buffers)] @
     (if p = Part_000 then []
      else addShader_events h g n (vertexShaderSource p) VERTEX_SHADER @
           addShader_events h g (Suc n) fragmentShaderSource FRAGMENT_SHADER @
           createProgram_events h g (Suc (Suc n)) n (Suc n) @
           createBuffer_events h m p g (Suc (Suc n)) (Suc (Suc (Suc n))) @
           first_frame h m p g (Suc (Suc n)) this now)"

definition built_app :: "host \<Rightarrow> gl_matrix \<Rightarrow> source_file \<Rightarrow> canvas \<Rightarrow> glcontext \<Rightarrow> nat \<Rightarrow> nat \<Rightarrow> app" where
  "built_app h m p c g n now =
     (if p = Part_000 then (blank p)\<lparr>canvas := Some c, gl := Some g\<rparr>
      else \<lparr>canvas = Some c, gl = Some g, vertexShader = Some n, fragmentShader = Some (Suc n),
        program = Some (Suc (Suc n)),
        worldMatrix = (if p = Part_001
          then Some (mat4_rotate m (mat4_identity m (replicate 16 0)) (mat4_identity m (replicate 16 0))
                 (angle_at now) [0, 1, 0]) else None),
        worldAttributeLocation =
          (if p = Part_001 then uniformLocation h (Suc (Suc n)) ''matrixWorld'' else None),
        running = True\<rparr>)"

definition built_gl :: "source_file \<Rightarrow> nat \<Rightarrow> gl_state \<Rightarrow> gl_state" where
  "built_gl p n s =
     (if p = Part_000 then s\<lparr>clear_color := pastel\<rparr>
      else s\<lparr>clear_color := pastel, array_buffer := Some (Suc (Suc (Suc n))),
             buffer_data := (buffer_data s)(Suc (Suc (Suc n)) \<mapsto> triangleVertices p)\<rparr>)"

definition built :: "host \<Rightarrow> gl_matrix \<Rightarrow> source_file \<Rightarrow> canvas \<Rightarrow> glcontext \<Rightarrow> nat \<Rightarrow> world \<Rightarrow> world" where
  "built h m p c g now w =
     w\<lparr>store := (store w)(next_obj w := built_app h m p c g (next_handle w) now),
       next_obj := Suc (next_obj w),
       next_handle := (if p = Part_000 then next_handle w else Suc (Suc (Suc (Suc (next_handle w))))),
       gls := (gls w)(g := built_gl p (next_handle w) (gls w g)),
       trace := trace w @ construction_events h m p c g (next_handle w) (next_obj w) now,
       queue := queue w @ (if p = Part_000 then []
          else if p = Part_001 then [Loop_part001 (next_obj w) (mat4_identity m (replicate 16 0))]
          else [Loop_cube (next_obj w)])\<rparr>"

section \<open>Observations on the log\<close>

text \<open>The events logged between two worlds of one execution.\<close>

definition added :: "world \<Rightarrow> world \<Rightarrow> event list" where
  "added w w' = drop (length (trace w)) (trace w')"

fun is_getContext :: "event \<Rightarrow> bool" where
  "is_getContext (GetContext c name) = True"
| "is_getContext e = False"

fun is_console :: "event \<Rightarrow> bool" where
  "is_console (ConsoleError msg info) = True"
| "is_console e = False"

fun is_upload :: "event \<Rightarrow> bool" where
  "is_upload (GL g (UniformMatrix4fv location tr value)) = True"
| "is_upload e = False"

fun is_draw :: "event \<Rightarrow> bool" where
  "is_draw (GL g (DrawArrays mode first count)) = True"
| "is_draw e = False"

fun is_bufferData :: "event \<Rightarrow> bool" where
  "is_bufferData (GL g (BufferData target d usage)) = True"
| "is_bufferData e = False"

fun is_gl :: "event \<Rightarrow> bool" where
  "is_gl (GL g c) = True"
| "is_gl e = False"

text \<open>A frame of the object \<open>this\<close>: the browser runs its callback.\<close>

fun frame_of :: "nat \<Rightarrow> event \<Rightarrow> bool" where
  "frame_of this (Callback cb) = (self cb = this)"
| "frame_of this e = False"

fun request_of :: "nat \<Rightarrow> event \<Rightarrow> bool" where
  "request_of this (RequestAnimationFrame cb) = (self cb = this)"
| "request_of this e = False"

definition frames :: "nat \<Rightarrow> world \<Rightarrow> nat" where
  "frames this w = length (filter (frame_of this) (trace w))"

definition requests :: "nat \<Rightarrow> world \<Rightarrow> nat" where
  "requests this w = length (filter (request_of this) (trace w))"

definition pending :: "nat \<Rightarrow> world \<Rightarrow> nat" where
  "pending this w = length (filter (\<lambda>cb. self cb = this) (queue w))"

text \<open>
  The calls with fixed arguments: the clear colour, the vertex data and the draw call.
\<close>

fun fixed_call :: "source_file \<Rightarrow> gl_call \<Rightarrow> bool" where
  "fixed_call p (ClearColor r g b a) = ((r, g, b, a) = pastel)"
| "fixed_call p (Clear bits) = (bits = both_buffers)"
| "fixed_call p (BufferData target d usage) = (d = triangleVertices p)"
| "fixed_call p (DrawArrays mode first count) = (first = 0 \<and> count = 3)"
| "fixed_call p c = True"

fun fixed_event :: "source_file \<Rightarrow> event \<Rightarrow> bool" where
  "fixed_event p (GL g c) = fixed_call p c"
| "fixed_event p e = True"

text \<open>
  What holds of every pending callback in a world the process can reach: it belongs to an
  object that was constructed to the end.
\<close>

definition cleared :: "world \<Rightarrow> nat \<Rightarrow> bool" where
  "cleared w r = (case gl (store w r) of None \<Rightarrow> False | Some g \<Rightarrow> clear_color (gls w g) = pastel)"

fun sound_callback :: "host \<Rightarrow> gl_matrix \<Rightarrow> source_file \<Rightarrow> world \<Rightarrow> callback \<Rightarrow> bool" where
  "sound_callback h m p w (Loop_cube r) = (p = Cube \<and> r < next_obj w \<and> cleared w r)"
| "sound_callback h m p w (Loop_part001 r identityMatrix) =
     (p = Part_001 \<and> r < next_obj w \<and> cleared w r \<and>
      identityMatrix = mat4_identity m (replicate 16 0) \<and>
      worldMatrix (store w r) \<noteq> None \<and>
      (case program (store w r) of None \<Rightarrow> False
       | Some pr \<Rightarrow> worldAttributeLocation (store w r) = uniformLocation h pr ''matrixWorld''))"

definition sound :: "host \<Rightarrow> gl_matrix \<Rightarrow> source_file \<Rightarrow> world \<Rightarrow> bool" where
  "sound h m p w =
     (list_all (sound_callback h m p w) (queue w) \<and> distinct (map self (queue w)) \<and>
      list_all (fixed_event p) (trace w))"

text \<open>
  How one world of an execution relates to a later one: objects and WebGL objects are
  only added, the fields assigned by the constructor stay, a flag that is false stays
  false, the pastel clear colour stays, the data of an existing buffer stays, and only
  calls with the fixed arguments are logged.
\<close>

definition evolves :: "source_file \<Rightarrow> world \<Rightarrow> world \<Rightarrow> bool" where
  "evolves p w w' =
     (next_obj w \<le> next_obj w' \<and> next_handle w \<le> next_handle w' \<and>
      (\<forall>r<next_obj w.
         canvas (store w' r) = canvas (store w r) \<and> gl (store w' r) = gl (store w r) \<and>
         vertexShader (store w' r) = vertexShader (store w r) \<and>
         fragmentShader (store w' r) = fragmentShader (store w r) \<and>
         program (store w' r) = program (store w r) \<and>
         worldAttributeLocation (store w' r) = worldAttributeLocation (store w r) \<and>
         (worldMatrix (store w r) \<noteq> None \<longrightarrow> worldMatrix (store w' r) \<noteq> None) \<and>
         (running (store w' r) \<longrightarrow> running (store w r))) \<and>
      (\<forall>g. clear_color (gls w g) = pastel \<longrightarrow> clear_color (gls w' g) = pastel) \<and>
      (\<forall>g. \<forall>b<next_handle w. buffer_data (gls w' g) b = buffer_data (gls w g) b) \<and>
      (\<exists>evs. trace w' = trace w @ evs \<and> list_all (fixed_event p) evs))"

text \<open>What the console shows after a failed compilation, link or validation.\<close>

definition compile_report :: "host \<Rightarrow> glshader \<Rightarrow> event list" where
  "compile_report h s =
     (if compileStatus h s then [] else [ConsoleError ''Error compiling shader '' (shaderInfoLog h s)])"

definition link_report :: "host \<Rightarrow> glprogram \<Rightarrow> event list" where
  "link_report h pr =
     (if linkStatus h pr then [] else [ConsoleError ''Could not link program'' (programInfoLog h pr)])"

definition validate_report :: "host \<Rightarrow> glprogram \<Rightarrow> event list" where
  "validate_report h pr =
     (if validateStatus h pr then [] else [ConsoleError ''ERROR invalidating program'' (programInfoLog h pr)])"

text \<open>The steps of a frame, in the order they are logged.\<close>

datatype frame_step = Cleared | Uploaded | Drawn

fun step_of :: "event \<Rightarrow> frame_step option" where
  "step_of (GL g (Clear bits)) = Some Cleared"
| "step_of (GL g (UniformMatrix4fv location tr value)) = Some Uploaded"
| "step_of (GL g (DrawArrays mode first count)) = Some Drawn"
| "step_of e = None"

definition frame_steps :: "event list \<Rightarrow> frame_step list" where
  "frame_steps evs = List.map_filter step_of evs"

text \<open>
  Two readings of the specification, stated as it words them: two objects that share no
  handle, and a process with one flag for all its objects.
\<close>

definition own_handles :: "app \<Rightarrow> app \<Rightarrow> bool" where
  "own_handles a b =
     (canvas a \<noteq> canvas b \<and> gl a \<noteq> gl b \<and> vertexShader a \<noteq> vertexShader b \<and>
      fragmentShader a \<noteq> fragmentShader b \<and> program a \<noteq> program b)"

definition process_wide_flag :: "world \<Rightarrow> bool" where
  "process_wide_flag w = list_all (\<lambda>r. running (store w r) = running (store w 0)) [0..<next_obj w]"

section \<open>A browser and gl-matrix, for examples\<close>

text \<open>
  A page with the canvas (element 0) whose \<open>webgl\<close> context is context 0, and a driver
  that accepts every shader and program.
\<close>

definition page :: host where
  "page = \<lparr>elementById = (\<lambda>ident. if ident = ''game-surface'' then Some 0 else None),
     getContext_of = (\<lambda>c name. if name = ''webgl'' then Some 0 else None),
     compileStatus = (\<lambda>s. True), shaderInfoLog = (\<lambda>s. ''''),
     linkStatus = (\<lambda>pr. True), validateStatus = (\<lambda>pr. True), programInfoLog = (\<lambda>pr. ''''),
     attribLocation = (\<lambda>pr name. if name = ''vertPosition'' then 0 else 1),
     uniformLocation = (\<lambda>pr name. if name = ''matrixWorld'' then Some 0
        else if name = ''matrixView'' then Some 1 else Some 2)\<rparr>"

text \<open>A browser that knows the context only under its second name.\<close>

definition old_browser :: host where
  "old_browser = page\<lparr>getContext_of := (\<lambda>c name. if name = ''experimental-webgl'' then Some 0 else None)\<rparr>"

text \<open>A browser without WebGL.\<close>

definition no_webgl :: host where
  "no_webgl = page\<lparr>getContext_of := (\<lambda>c name. None)\<rparr>"

text \<open>A driver that rejects every shader and every program.\<close>

definition strict_driver :: host where
  "strict_driver = page\<lparr>compileStatus := (\<lambda>s. False), shaderInfoLog := (\<lambda>s. ''syntax error''),
     linkStatus := (\<lambda>pr. False), validateStatus := (\<lambda>pr. False),
     programInfoLog := (\<lambda>pr. ''not linked''),
     attribLocation := (\<lambda>pr name. - 1), uniformLocation := (\<lambda>pr name. None)\<rparr>"

text \<open>
  The functions of gl-matrix over the reals: \<open>identity\<close>, \<open>lookAt\<close>, \<open>perspective\<close> (with a
  finite \<open>far\<close>), \<open>rotate\<close> and \<open>toRadian\<close>. \<open>rotate\<close> leaves \<open>out\<close> alone when the axis is
  shorter than \<open>EPSILON\<close>.
\<close>

definition EPSILON :: real where
  "EPSILON = 0.000001"

definition glm_identity :: "mat \<Rightarrow> mat" where
  "glm_identity out = [1, 0, 0, 0,  0, 1, 0, 0,  0, 0, 1, 0,  0, 0, 0, 1]"

definition normalised :: "real \<Rightarrow> real \<Rightarrow> real \<Rightarrow> real \<times> real \<times> real" where
  "normalised x y z =
     (let len = sqrt (x * x + y * y + z * z)
      in if len = 0 then (0, 0, 0) else (x / len, y / len, z / len))"

definition glm_lookAt :: "mat \<Rightarrow> real list \<Rightarrow> real list \<Rightarrow> real list \<Rightarrow> mat" where
  "glm_lookAt out eye center up =
     (let eyex = eye ! 0; eyey = eye ! 1; eyez = eye ! 2;
          upx = up ! 0; upy = up ! 1; upz = up ! 2;
          centerx = center ! 0; centery = center ! 1; centerz = center ! 2
      in if \<bar>eyex - centerx\<bar> < EPSILON \<and> \<bar>eyey - centery\<bar> < EPSILON \<and> \<bar>eyez - centerz\<bar> < EPSILON
         then glm_identity out
         else
           (let (z0, z1, z2) = normalised (eyex - centerx) (eyey - centery) (eyez - centerz);
                (x0, x1, x2) = normalised (upy * z2 - upz * z1) (upz * z0 - upx * z2) (upx * z1 - upy * z0);
                (y0, y1, y2) = normalised (z1 * x2 - z2 * x1) (z2 * x0 - z0 * x2) (z0 * x1 - z1 * x0)
            in [x0, y0, z0, 0,  x1, y1, z1, 0,  x2, y2, z2, 0,
                - (x0 * eyex + x1 * eyey + x2 * eyez),
                - (y0 * eyex + y1 * eyey + y2 * eyez),
                - (z0 * eyex + z1 * eyey + z2 * eyez), 1]))"

definition glm_perspective :: "mat \<Rightarrow> real \<Rightarrow> real \<Rightarrow> real \<Rightarrow> real \<Rightarrow> mat" where
  "glm_perspective out fovy aspect near far =
     (let f = 1 / tan (fovy / 2); nf = 1 / (near - far)
      in [f / aspect, 0, 0, 0,  0, f, 0, 0,  0, 0, (far + near) * nf, - 1,
          0, 0, 2 * far * near * nf, 0])"

definition glm_rotate :: "mat \<Rightarrow> mat \<Rightarrow> real \<Rightarrow> real list \<Rightarrow> mat" where
  "glm_rotate out a rad axis =
     (let x = axis ! 0; y = axis ! 1; z = axis ! 2; len = sqrt (x * x + y * y + z * z)
      in if len < EPSILON then out
         else
           (let x = x / len; y = y / len; z = z / len;
                s = sin rad; c = cos rad; t = 1 - c;
                b00 = x * x * t + c; b01 = y * x * t + z * s; b02 = z * x * t - y * s;
                b10 = x * y * t - z * s; b11 = y * y * t + c; b12 = z * y * t + x * s;
                b20 = x * z * t + y * s; b21 = y * z * t - x * s; b22 = z * z * t + c
            in [a ! 0 * b00 + a ! 4 * b01 + a ! 8 * b02,
                a ! 1 * b00 + a ! 5 * b01 + a ! 9 * b02,
                a ! 2 * b00 + a ! 6 * b01 + a ! 10 * b02,
                a ! 3 * b00 + a ! 7 * b01 + a ! 11 * b02,
                a ! 0 * b10 + a ! 4 * b11 + a ! 8 * b12,
                a ! 1 * b10 + a ! 5 * b11 + a ! 9 * b12,
                a ! 2 * b10 + a ! 6 * b11 + a ! 10 * b12,
                a ! 3 * b10 + a ! 7 * b11 + a ! 11 * b12,
                a ! 0 * b20 + a ! 4 * b21 + a ! 8 * b22,
                a ! 1 * b20 + a ! 5 * b21 + a ! 9 * b22,
                a ! 2 * b20 + a ! 6 * b21 + a ! 10 * b22,
                a ! 3 * b20 + a ! 7 * b21 + a ! 11 * b22,
                a ! 12, a ! 13, a ! 14, a ! 15]))"

definition glm :: gl_matrix where
  "glm = \<lparr>mat4_identity = glm_identity, mat4_lookAt = glm_lookAt,
     mat4_perspective = glm_perspective, mat4_rotate = glm_rotate,
     toRadian = (\<lambda>a. a * (pi / 180))\<rparr>"

section \<open>Each method, run\<close>

lemmas prims = ok_def throw_def andThen_def log_def field_def assign_def perform_def glcall_def
  glquery_def glcreate_def console_error_def requestAnimationFrame_def read_def getElementById_def
  getContext_def getAttribLocation_def getUniformLocation_def getProgramParameter_def
  getProgramInfoLog_def

lemma addShader_exec:
  "gl (store w this) = Some g \<Longrightarrow>
   addShader h this src ty w = (Inr (next_handle w),
      w\<lparr>next_handle := Suc (next_handle w),
        trace := trace w @ addShader_events h g (next_handle w) src ty\<rparr>)"
  by (simp add: addShader_def prims addShader_events_def)

lemma addShader_fail:
  "gl (store w this) = None \<Longrightarrow> addShader h this src ty w = (Inl TypeError, w)"
  by (simp add: addShader_def prims)

lemma createShaders_exec:
  "gl (store w this) = Some g \<Longrightarrow>
   createShaders h p this w = (Inr (),
      w\<lparr>next_handle := Suc (Suc (next_handle w)),
        store := (store w)(this := (store w this)\<lparr>vertexShader := Some (next_handle w),
                   fragmentShader := Some (Suc (next_handle w))\<rparr>),
        trace := trace w @ addShader_events h g (next_handle w) (vertexShaderSource p) VERTEX_SHADER
                 @ addShader_events h g (Suc (next_handle w)) fragmentShaderSource FRAGMENT_SHADER\<rparr>)"
  by (simp add: createShaders_def andThen_def assign_def addShader_exec)

lemma createProgram_exec:
  "gl (store w this) = Some g \<Longrightarrow> vertexShader (store w this) = Some vs \<Longrightarrow>
   fragmentShader (store w this) = Some fs \<Longrightarrow>
   createProgram h this w = (Inr (),
      w\<lparr>next_handle := Suc (next_handle w),
        store := (store w)(this := (store w this)\<lparr>program := Some (next_handle w)\<rparr>),
        trace := trace w @ createProgram_events h g (next_handle w) vs fs\<rparr>)"
  by (simp add: createProgram_def prims createProgram_events_def)

lemma createBuffer_cube_exec:
  "gl (store w this) = Some g \<Longrightarrow> program (store w this) = Some pr \<Longrightarrow>
   createBuffer_cube h this w = (Inr (),
      w\<lparr>next_handle := Suc (next_handle w),
        gls := (gls w)(g := (gls w g)\<lparr>array_buffer := Some (next_handle w),
                 buffer_data := (buffer_data (gls w g))(next_handle w \<mapsto> triangleVertices Cube)\<rparr>),
        trace := trace w @ createBuffer_events h m Cube g pr (next_handle w)\<rparr>)"
  by (simp add: createBuffer_cube_def prims createBuffer_events_def attrib_events_def
        BYTES_PER_ELEMENT_def del: triangleVertices.simps)

lemma createBuffer_part001_exec:
  "gl (store w this) = Some g \<Longrightarrow> program (store w this) = Some pr \<Longrightarrow>
   createBuffer_part001 h m this w = (Inr (),
      w\<lparr>next_handle := Suc (next_handle w),
        store := (store w)(this := (store w this)\<lparr>
            worldAttributeLocation := uniformLocation h pr ''matrixWorld'',
            worldMatrix := Some (mat4_identity m (replicate 16 0))\<rparr>),
        gls := (gls w)(g := (gls w g)\<lparr>array_buffer := Some (next_handle w),
                 buffer_data := (buffer_data (gls w g))(next_handle w \<mapsto> triangleVertices Part_001)\<rparr>),
        trace := trace w @ createBuffer_events h m Part_001 g pr (next_handle w)\<rparr>)"
  by (simp add: createBuffer_part001_def prims createBuffer_events_def attrib_events_def
        uniform_events_def view_matrix_def projection_matrix_def BYTES_PER_ELEMENT_def Let_def
        del: triangleVertices.simps replicate.simps)

lemma acquire_none:
  "elementById h ''game-surface'' = None \<Longrightarrow>
   acquire h this w = (Inl TypeError,
     w\<lparr>store := (store w)(this := (store w this)\<lparr>canvas := None\<rparr>),
       trace := trace w @ [GetElementById ''game-surface'']\<rparr>)"
  by (simp add: acquire_def prims)

lemma acquire_some:
  "elementById h ''game-surface'' = Some c \<Longrightarrow>
   acquire h this w = (Inr (),
     w\<lparr>store := (store w)(this := (store w this)\<lparr>canvas := Some c, gl := acquired h c\<rparr>),
       trace := trace w @ acquire_events h c\<rparr>)"
  by (simp add: acquire_def prims acquired_def acquire_events_def split: option.splits)

lemma setClearColor_exec:
  "gl (store w this) = Some g \<Longrightarrow>
   setClearColor this w = (Inr (),
     w\<lparr>gls := (gls w)(g := (gls w g)\<lparr>clear_color := pastel\<rparr>),
       trace := trace w @ [GL g (ClearColor 0.75 0.85 0.8 1)]\<rparr>)"
  by (simp add: setClearColor_def prims pastel_def)

lemma setClearColor_fail:
  "gl (store w this) = None \<Longrightarrow> setClearColor this w = (Inl TypeError, w)"
  by (simp add: setClearColor_def prims)

lemma clearScreen_exec:
  "gl (store w this) = Some g \<Longrightarrow>
   clearScreen this w = (Inr (), w\<lparr>trace := trace w @ [GL g (Clear both_buffers)]\<rparr>)"
  by (simp add: clearScreen_def prims both_buffers_def insert_commute)

lemma clearScreen_fail:
  "gl (store w this) = None \<Longrightarrow> clearScreen this w = (Inl TypeError, w)"
  by (simp add: clearScreen_def prims)

lemma loop_cube_exec:
  "gl (store w this) = Some g \<Longrightarrow>
   loop_cube this w = (Inr (),
     w\<lparr>trace := trace w @ [GL g (Clear both_buffers), GL g (UseProgram (program (store w this))),
          GL g (DrawArrays TRIANGLES 0 3)] @
          (if running (store w this) then [RequestAnimationFrame (Loop_cube this)] else []),
       queue := queue w @ (if running (store w this) then [Loop_cube this] else [])\<rparr>)"
  by (simp add: loop_cube_def clearScreen_exec andThen_def read_def glcall_def perform_def
        requestAnimationFrame_def log_def ok_def)

lemma loop_cube_fail:
  "gl (store w this) = None \<Longrightarrow> loop_cube this w = (Inl TypeError, w)"
  by (simp add: loop_cube_def clearScreen_fail andThen_def)

lemma loop_part001_exec:
  "gl (store w this) = Some g \<Longrightarrow> worldMatrix (store w this) = Some out \<Longrightarrow>
   loop_part001 m this identityMatrix now w = (Inr (),
     w\<lparr>store := (store w)(this := (store w this)\<lparr>worldMatrix :=
            Some (mat4_rotate m out identityMatrix (angle_at now) [0, 1, 0])\<rparr>),
       trace := trace w @ [GL g (UniformMatrix4fv (worldAttributeLocation (store w this)) False
             (mat4_rotate m out identityMatrix (angle_at now) [0, 1, 0])),
          GL g (Clear both_buffers), GL g (DrawArrays TRIANGLES 0 3)] @
          (if running (store w this) then [RequestAnimationFrame (Loop_part001 this identityMatrix)] else []),
       queue := queue w @ (if running (store w this) then [Loop_part001 this identityMatrix] else [])\<rparr>)"
  by (simp add: loop_part001_def clearScreen_def prims both_buffers_def insert_commute angle_at_def Let_def)

lemma loop_part001_fail1:
  "worldMatrix (store w this) = None \<Longrightarrow> loop_part001 m this identityMatrix now w = (Inl TypeError, w)"
  by (simp add: loop_part001_def prims Let_def)

lemma loop_part001_fail2:
  "gl (store w this) = None \<Longrightarrow> worldMatrix (store w this) = Some out \<Longrightarrow>
   loop_part001 m this identityMatrix now w = (Inl TypeError,
     w\<lparr>store := (store w)(this := (store w this)\<lparr>worldMatrix :=
            Some (mat4_rotate m out identityMatrix (angle_at now) [0, 1, 0])\<rparr>)\<rparr>)"
  by (simp add: loop_part001_def prims angle_at_def Let_def)

section \<open>The three outcomes of \<open>new App()\<close>\<close>

lemma App_new_no_canvas:
  "elementById h ''game-surface'' = None \<Longrightarrow>
   App_new h m p now w = (Inl TypeError,
     w\<lparr>store := (store w)(next_obj w := blank p), next_obj := Suc (next_obj w),
       trace := trace w @ [GetElementById ''game-surface'']\<rparr>)"
  by (cases p) (simp_all add: App_new_def Let_def andThen_def acquire_none blank_def)

lemma App_new_no_context:
  "elementById h ''game-surface'' = Some c \<Longrightarrow> acquired h c = None \<Longrightarrow>
   App_new h m p now w = (Inl TypeError,
     w\<lparr>store := (store w)(next_obj w := (blank p)\<lparr>canvas := Some c\<rparr>), next_obj := Suc (next_obj w),
       trace := trace w @ acquire_events h c\<rparr>)"
  by (cases p) (simp_all add: App_new_def Let_def andThen_def acquire_some setClearColor_fail blank_def)

lemma App_new_success:
  "elementById h ''game-surface'' = Some c \<Longrightarrow> acquired h c = Some g \<Longrightarrow>
   App_new h m p now w = (Inr (next_obj w), built h m p c g now w)"
proof (cases p)
  case Part_000
  assume "elementById h ''game-surface'' = Some c" "acquired h c = Some g"
  then show ?thesis unfolding Part_000
    by (simp add: App_new_def Let_def andThen_def ok_def acquire_some setClearColor_exec
        clearScreen_exec built_def built_app_def built_gl_def construction_events_def blank_def)
next
  case Cube
  assume "elementById h ''game-surface'' = Some c" "acquired h c = Some g"
  then show ?thesis unfolding Cube
    apply (simp add: App_new_def Let_def andThen_def ok_def acquire_some setClearColor_exec
        clearScreen_exec createShaders_exec createProgram_exec createBuffer_cube_exec [where m = m]
        mainRenderLoop_cube_def loop_cube_exec blank_def
        built_def built_app_def built_gl_def construction_events_def first_frame_def
        del: triangleVertices.simps vertexShaderSource.simps;
        (rule world.equality; simp))
    done
next
  case Part_001
  assume "elementById h ''game-surface'' = Some c" "acquired h c = Some g"
  then show ?thesis unfolding Part_001
    apply (simp add: App_new_def Let_def andThen_def ok_def acquire_some setClearColor_exec
        clearScreen_exec createShaders_exec createProgram_exec createBuffer_part001_exec
        mainRenderLoop_part001_def loop_part001_exec blank_def
        built_def built_app_def built_gl_def construction_events_def first_frame_def
        del: triangleVertices.simps replicate.simps vertexShaderSource.simps;
        (rule world.equality; simp))
    done
qed

text \<open>What a construction leaves in each component of the world.\<close>

lemma built_simps:
  "store (built h m p c g now w) = (store w)(next_obj w := built_app h m p c g (next_handle w) now)"
  "next_obj (built h m p c g now w) = Suc (next_obj w)"
  "gls (built h m p c g now w) = (gls w)(g := built_gl p (next_handle w) (gls w g))"
  "trace (built h m p c g now w) = trace w @ construction_events h m p c g (next_handle w) (next_obj w) now"
  "queue (built h m p c g now w) = queue w @ (if p = Part_000 then []
          else if p = Part_001 then [Loop_part001 (next_obj w) (mat4_identity m (replicate 16 0))]
          else [Loop_cube (next_obj w)])"
  by (simp_all add: built_def)

lemma built_app_simps:
  "canvas (built_app h m p c g n now) = Some c"
  "gl (built_app h m p c g n now) = Some g"
  "p \<noteq> Part_000 \<Longrightarrow> vertexShader (built_app h m p c g n now) = Some n"
  "p \<noteq> Part_000 \<Longrightarrow> fragmentShader (built_app h m p c g n now) = Some (Suc n)"
  "p \<noteq> Part_000 \<Longrightarrow> program (built_app h m p c g n now) = Some (Suc (Suc n))"
  "p \<noteq> Part_000 \<Longrightarrow> running (built_app h m p c g n now)"
  by (simp_all add: built_app_def blank_def)

lemma clear_color_built_gl [simp]: "clear_color (built_gl p n s) = pastel"
  by (simp add: built_gl_def)

section \<open>What one input can do\<close>

lemma step_cases [case_names no_canvas no_context constructed stopped idle aborted aborted_late
    frame_cube frame_part001]:
  obtains
    (no_canvas) now where "i = New now" "elementById h ''game-surface'' = None"
      "step h m p w i = w\<lparr>store := (store w)(next_obj w := blank p), next_obj := Suc (next_obj w),
         trace := trace w @ [GetElementById ''game-surface'']\<rparr>"
  | (no_context) now c where "i = New now" "elementById h ''game-surface'' = Some c"
      "acquired h c = None"
      "step h m p w i = w\<lparr>store := (store w)(next_obj w := (blank p)\<lparr>canvas := Some c\<rparr>),
         next_obj := Suc (next_obj w), trace := trace w @ acquire_events h c\<rparr>"
  | (constructed) now c g where "i = New now" "elementById h ''game-surface'' = Some c"
      "acquired h c = Some g" "step h m p w i = built h m p c g now w"
  | (stopped) this where "i = Stop this" "this < next_obj w" "p \<noteq> Part_000"
      "step h m p w i = w\<lparr>store := (store w)(this := (store w this)\<lparr>running := False\<rparr>)\<rparr>"
  | (idle) "step h m p w i = w"
  | (aborted) now cb q where "i = Fire now" "queue w = cb # q"
      "gl (store w (self cb)) = None \<or> (\<exists>r idm. cb = Loop_part001 r idm \<and> worldMatrix (store w r) = None)"
      "step h m p w i = w\<lparr>trace := trace w @ [Callback cb], queue := q\<rparr>"
  | (aborted_late) now r idm q out where "i = Fire now" "queue w = Loop_part001 r idm # q"
      "gl (store w r) = None" "worldMatrix (store w r) = Some out"
      "step h m p w i = w\<lparr>store := (store w)(r := (store w r)\<lparr>worldMatrix :=
            Some (mat4_rotate m out idm (angle_at now) [0, 1, 0])\<rparr>),
         trace := trace w @ [Callback (Loop_part001 r idm)], queue := q\<rparr>"
  | (frame_cube) now r q g where "i = Fire now" "queue w = Loop_cube r # q" "gl (store w r) = Some g"
      "step h m p w i = w\<lparr>trace := trace w @ [Callback (Loop_cube r), GL g (Clear both_buffers),
            GL g (UseProgram (program (store w r))), GL g (DrawArrays TRIANGLES 0 3)] @
            (if running (store w r) then [RequestAnimationFrame (Loop_cube r)] else []),
         queue := q @ (if running (store w r) then [Loop_cube r] else [])\<rparr>"
  | (frame_part001) now r idm q g out where "i = Fire now" "queue w = Loop_part001 r idm # q"
      "gl (store w r) = Some g" "worldMatrix (store w r) = Some out"
      "step h m p w i = w\<lparr>store := (store w)(r := (store w r)\<lparr>worldMatrix :=
            Some (mat4_rotate m out idm (angle_at now) [0, 1, 0])\<rparr>),
         trace := trace w @ [Callback (Loop_part001 r idm),
            GL g (UniformMatrix4fv (worldAttributeLocation (store w r)) False
              (mat4_rotate m out idm (angle_at now) [0, 1, 0])),
            GL g (Clear both_buffers), GL g (DrawArrays TRIANGLES 0 3)] @
            (if running (store w r) then [RequestAnimationFrame (Loop_part001 r idm)] else []),
         queue := q @ (if running (store w r) then [Loop_part001 r idm] else [])\<rparr>"
proof (cases i)
  case (New now)
  show ?thesis
  proof (cases "elementById h ''game-surface''")
    case None
    with New show ?thesis by (intro no_canvas [of now]) (simp_all add: App_new_no_canvas)
  next
    case (Some c)
    show ?thesis
    proof (cases "acquired h c")
      case None
      with New Some show ?thesis by (intro no_context [of now c]) (simp_all add: App_new_no_context)
    next
      case (Some g)
      with New \<open>elementById h ''game-surface'' = Some c\<close> show ?thesis
        by (intro constructed [of now c g]) (simp_all add: App_new_success)
    qed
  qed
next
  case (Stop this)
  show ?thesis
  proof (cases "this < next_obj w \<and> p \<noteq> Part_000")
    case True
    with Stop show ?thesis by (intro stopped [of this]) (simp_all add: stop_def assign_def)
  next
    case False
    with Stop show ?thesis by (intro idle) (auto simp add: stop_def throw_def)
  qed
next
  case (Fire now)
  show ?thesis
  proof (cases "queue w")
    case Nil
    with Fire show ?thesis by (intro idle) simp
  next
    case (Cons cb q)
    show ?thesis
    proof (cases cb)
      case (Loop_cube r)
      show ?thesis
      proof (cases "gl (store w r)")
        case None
        with Fire Cons Loop_cube show ?thesis
          by (intro aborted [of now cb q]) (simp_all add: loop_cube_fail log_def)
      next
        case (Some g)
        with Fire Cons Loop_cube show ?thesis
          by (intro frame_cube [of now r q g]) (simp_all add: loop_cube_exec log_def)
      qed
    next
      case (Loop_part001 r idm)
      show ?thesis
      proof (cases "worldMatrix (store w r)")
        case None
        with Fire Cons Loop_part001 show ?thesis
          by (intro aborted [of now cb q]) (simp_all add: loop_part001_fail1 log_def)
      next
        case (Some out)
        show ?thesis
        proof (cases "gl (store w r)")
          case None
          with Fire Cons Loop_part001 Some show ?thesis
            by (intro aborted_late [of now r idm q out]) (simp_all add: loop_part001_fail2 log_def)
        next
          case (Some g)
          with Fire Cons Loop_part001 \<open>worldMatrix (store w r) = Some out\<close> show ?thesis
            by (intro frame_part001 [of now r idm q g out]) (simp_all add: loop_part001_exec log_def)
        qed
      qed
    qed
  qed
qed

section \<open>The events of a construction, observed\<close>

lemmas events_defs = construction_events_def acquire_events_def addShader_events_def
  createProgram_events_def createBuffer_events_def attrib_events_def uniform_events_def
  first_frame_def

lemma added_append: "trace w' = trace w @ evs \<Longrightarrow> added w w' = evs"
  by (simp add: added_def)

lemma added_self [simp]: "added w w = []"
  by (simp add: added_def)

lemma fixed_construction:
  "list_all (fixed_event p) (construction_events h m p c g n this now)"
  by (simp add: events_defs pastel_def del: triangleVertices.simps vertexShaderSource.simps)

lemma frames_construction:
  "filter (frame_of r) (construction_events h m p c g n this now) = []"
  by (simp add: events_defs del: triangleVertices.simps vertexShaderSource.simps)

lemma requests_construction:
  "this \<noteq> r \<Longrightarrow> filter (request_of r) (construction_events h m p c g n this now) = []"
  by (simp add: events_defs del: triangleVertices.simps vertexShaderSource.simps)

lemma getContext_construction:
  "filter is_getContext (construction_events h m p c g n this now) =
     (if getContext_of h c ''webgl'' = None
      then [GetContext c ''webgl'', GetContext c ''experimental-webgl'']
      else [GetContext c ''webgl''])"
  by (simp add: events_defs del: triangleVertices.simps vertexShaderSource.simps)

section \<open>What every input preserves\<close>

lemma evolves_refl: "evolves p w w"
  by (simp add: evolves_def)

lemma evolves_trans:
  assumes "evolves p w1 w2" and "evolves p w2 w3"
  shows "evolves p w1 w3"
proof -
  from assms obtain e1 e2 where
    e: "trace w2 = trace w1 @ e1" "list_all (fixed_event p) e1"
       "trace w3 = trace w2 @ e2" "list_all (fixed_event p) e2"
    unfolding evolves_def by blast
  then have "trace w3 = trace w1 @ (e1 @ e2) \<and> list_all (fixed_event p) (e1 @ e2)"
    by simp
  then have tr: "\<exists>evs. trace w3 = trace w1 @ evs \<and> list_all (fixed_event p) evs"
    by blast
  have objs: "next_obj w1 \<le> next_obj w2" "next_handle w1 \<le> next_handle w2"
    using assms(1) by (simp_all add: evolves_def)
  show ?thesis
    unfolding evolves_def
  proof (intro conjI allI impI)
    show "\<exists>evs. trace w3 = trace w1 @ evs \<and> list_all (fixed_event p) evs" by (rule tr)
  qed (use assms objs in \<open>auto simp add: evolves_def\<close>)
qed

lemma evolves_step: "evolves p w (step h m p w i)"
proof (cases rule: step_cases [where i = i and h = h and p = p and w = w and m = m])
  case (no_canvas now)
  show ?thesis unfolding no_canvas(3) by (simp add: evolves_def)
next
  case (no_context now c)
  show ?thesis unfolding no_context(4) by (simp add: evolves_def acquire_events_def)
next
  case (constructed now c g)
  show ?thesis unfolding constructed(4)
    by (simp add: evolves_def built_simps fixed_construction) (simp add: built_def built_gl_def)
next
  case (stopped r)
  show ?thesis unfolding stopped(4) by (simp add: evolves_def)
next
  case idle
  show ?thesis unfolding idle by (rule evolves_refl)
next
  case (aborted now cb q)
  show ?thesis unfolding aborted(4) by (simp add: evolves_def)
next
  case (aborted_late now r idm q out)
  show ?thesis unfolding aborted_late(5) using aborted_late(4) by (simp add: evolves_def)
next
  case (frame_cube now r q g)
  show ?thesis unfolding frame_cube(4) by (simp add: evolves_def)
next
  case (frame_part001 now r idm q g out)
  show ?thesis unfolding frame_part001(5) using frame_part001(4) by (simp add: evolves_def)
qed

lemma evolves_run: "evolves p w (run h m p w ins)"
proof (induction ins arbitrary: w)
  case Nil
  show ?case by (simp add: run_def evolves_refl)
next
  case (Cons i ins)
  have "evolves p (step h m p w i) (run h m p (step h m p w i) ins)" by (rule Cons.IH)
  with evolves_step [of p w h m i] show ?case
    by (simp add: run_def evolves_trans)
qed

lemma run_Cons [simp]: "run h m p w (i # ins) = run h m p (step h m p w i) ins"
  by (simp add: run_def)

lemma run_Nil [simp]: "run h m p w [] = w"
  by (simp add: run_def)

lemma run_append: "run h m p w (xs @ ys) = run h m p (run h m p w xs) ys"
  by (simp add: run_def)

section \<open>Pending callbacks in a reachable world\<close>

lemma sound_callback_evolves:
  "evolves p w w' \<Longrightarrow> sound_callback h m p w cb \<Longrightarrow> sound_callback h m p w' cb"
  by (cases cb) (auto simp add: evolves_def cleared_def split: option.splits)

lemma sound_init: "sound h m p init_world"
  by (simp add: sound_def init_world_def)

lemma self_bound: "list_all (sound_callback h m p w) q \<Longrightarrow> cb \<in> set q \<Longrightarrow> self cb < next_obj w"
  by (cases cb) (auto simp add: list_all_iff)

lemma sound_step:
  assumes s: "sound h m p w"
  shows "sound h m p (step h m p w i)"
proof -
  let ?w' = "step h m p w i"
  have ev: "evolves p w ?w'" by (rule evolves_step)
  have old: "list_all (sound_callback h m p ?w') (queue w)"
    using s ev by (auto simp add: sound_def list_all_iff intro: sound_callback_evolves)
  have tr: "list_all (fixed_event p) (trace ?w')"
    using s ev by (auto simp add: sound_def evolves_def)
  have dist: "distinct (map self (queue w))" using s by (simp add: sound_def)
  show ?thesis
  proof (cases rule: step_cases [where i = i and h = h and p = p and w = w and m = m])
    case (constructed now c g)
    have below: "self cb < next_obj w" if "cb \<in> set (queue w)" for cb
      using s that by (auto simp add: sound_def intro: self_bound)
    have fresh: "next_obj w \<notin> self ` set (queue w)"
    proof
      assume "next_obj w \<in> self ` set (queue w)"
      then obtain cb where "cb \<in> set (queue w)" "self cb = next_obj w" by force
      with below [of cb] show False by simp
    qed
    define cb where "cb = (if p = Part_001
        then Loop_part001 (next_obj w) (mat4_identity m (replicate 16 0))
        else Loop_cube (next_obj w))"
    have self_cb: "self cb = next_obj w" by (simp add: cb_def)
    have old': "list_all (sound_callback h m p (built h m p c g now w)) (queue w)"
      and tr': "list_all (fixed_event p) (trace (built h m p c g now w))"
      using old tr unfolding constructed(4) by simp_all
    show ?thesis
    proof (cases "p = Part_000")
      case True
      then have "queue (built h m p c g now w) = queue w" by (simp add: built_simps)
      with old' tr' dist show ?thesis unfolding constructed(4) sound_def by simp
    next
      case False
      then have new: "sound_callback h m p (built h m p c g now w) cb"
        unfolding cb_def by (cases p) (simp_all add: built_simps built_app_def cleared_def)
      from False have "queue (built h m p c g now w) = queue w @ [cb]"
        by (simp add: built_simps cb_def)
      with old' tr' dist fresh new self_cb show ?thesis
        unfolding constructed(4) sound_def by simp
    qed
  next
    case (no_canvas now)
    have "queue ?w' = queue w" by (simp add: no_canvas(3))
    with old tr dist show ?thesis by (simp add: sound_def)
  next
    case (no_context now c)
    have "queue ?w' = queue w" by (simp add: no_context(4))
    with old tr dist show ?thesis by (simp add: sound_def)
  next
    case (stopped this)
    have "queue ?w' = queue w" by (simp add: stopped(4))
    with old tr dist show ?thesis by (simp add: sound_def)
  next
    case idle
    with s show ?thesis by simp
  next
    case (aborted now cb q)
    have "queue ?w' = q" by (simp add: aborted(4))
    with old tr dist aborted(2) show ?thesis by (auto simp add: sound_def)
  next
    case (aborted_late now r idm q out)
    have "queue ?w' = q" by (simp add: aborted_late(5))
    with old tr dist aborted_late(2) show ?thesis by (auto simp add: sound_def)
  next
    case (frame_cube now r q g)
    have "queue ?w' = q @ (if running (store w r) then [Loop_cube r] else [])"
      by (simp add: frame_cube(4))
    with old tr dist frame_cube(2) show ?thesis by (auto simp add: sound_def)
  next
    case (frame_part001 now r idm q g out)
    have "queue ?w' = q @ (if running (store w r) then [Loop_part001 r idm] else [])"
      by (simp add: frame_part001(5))
    with old tr dist frame_part001(2) show ?thesis by (auto simp add: sound_def)
  qed
qed

lemma sound_run: "sound h m p w \<Longrightarrow> sound h m p (run h m p w ins)"
  by (induction ins arbitrary: w) (simp_all add: sound_step)

lemma sound_reachable: "sound h m p (run h m p init_world ins)"
  by (simp add: sound_run sound_init)

lemma pending_le_1: "sound h m p w \<Longrightarrow> pending this w \<le> 1"
proof -
  have "distinct (map self q) \<Longrightarrow> length (filter (\<lambda>cb. self cb = this) q) \<le> 1" for q
  proof (induction q)
    case Nil
    show ?case by simp
  next
    case (Cons a q)
    show ?case
    proof (cases "self a = this")
      case True
      with Cons.prems have "\<forall>x\<in>set q. self x \<noteq> this" by (auto simp add: image_iff)
      then have "filter (\<lambda>cb. self cb = this) q = []" by (simp add: filter_empty_conv)
      with True show ?thesis by simp
    next
      case False
      with Cons show ?thesis by simp
    qed
  qed
  then show "sound h m p w \<Longrightarrow> pending this w \<le> 1"
    by (simp add: sound_def pending_def)
qed

section \<open>After \<open>stop()\<close>\<close>

lemma stopped_step:
  assumes "this < next_obj w" and "\<not> running (store w this)"
  shows "frames this (step h m p w i) + pending this (step h m p w i) \<le> frames this w + pending this w
     \<and> requests this (step h m p w i) = requests this w"
proof (cases rule: step_cases [where i = i and h = h and p = p and w = w and m = m])
  case (no_canvas now)
  show ?thesis unfolding no_canvas(3) by (simp add: frames_def pending_def requests_def)
next
  case (no_context now c)
  show ?thesis unfolding no_context(4)
    by (simp add: frames_def pending_def requests_def acquire_events_def)
next
  case (constructed now c g)
  show ?thesis unfolding constructed(4) using assms
    by (simp add: frames_def pending_def requests_def built_simps frames_construction
        requests_construction)
next
  case (stopped r)
  show ?thesis unfolding stopped(4) by (simp add: frames_def pending_def requests_def)
next
  case idle
  show ?thesis unfolding idle by simp
next
  case (aborted now cb q)
  show ?thesis unfolding aborted(4) using aborted(2)
    by (simp add: frames_def pending_def requests_def)
next
  case (aborted_late now r idm q out)
  show ?thesis unfolding aborted_late(5) using aborted_late(2)
    by (simp add: frames_def pending_def requests_def)
next
  case (frame_cube now r q g)
  show ?thesis unfolding frame_cube(4) using frame_cube(2) assms
    by (auto simp add: frames_def pending_def requests_def)
next
  case (frame_part001 now r idm q g out)
  show ?thesis unfolding frame_part001(5) using frame_part001(2) assms
    by (auto simp add: frames_def pending_def requests_def)
qed

lemma stopped_run:
  assumes "this < next_obj w" and "\<not> running (store w this)"
  shows "frames this (run h m p w ins) + pending this (run h m p w ins) \<le> frames this w + pending this w
     \<and> requests this (run h m p w ins) = requests this w
     \<and> \<not> running (store (run h m p w ins) this)"
  using assms
proof (induction ins arbitrary: w)
  case Nil
  then show ?case by simp
next
  case (Cons i ins)
  let ?w' = "step h m p w i"
  have ev: "evolves p w ?w'" by (rule evolves_step)
  with Cons.prems have a: "this < next_obj ?w'" "\<not> running (store ?w' this)"
    by (auto simp add: evolves_def)
  from Cons.IH [OF a] stopped_step [OF Cons.prems, of h m p i] show ?case
    by simp
qed

section \<open>The example browser\<close>

lemma page_canvas: "elementById page ''game-surface'' = Some 0"
  by (simp add: page_def)

lemma page_context: "acquired page 0 = Some 0"
  by (simp add: page_def acquired_def)

lemma page_new: "App_new page m p now w = (Inr (next_obj w), built page m p 0 0 now w)"
  by (rule App_new_success [OF page_canvas page_context])

lemma init_simps:
  "next_obj init_world = 0" "next_handle init_world = 0" "trace init_world = []"
  "queue init_world = []" "store init_world r = blank Part_000" "gls init_world g = default_gl"
  by (simp_all add: init_world_def)

lemma angle_at_eq: "angle_at now = real now / 6000 * (2 * pi)"
  by (simp add: angle_at_def)

section \<open>The running flag\<close>

text \<open>
  C9. \<open>stop()\<close> is idempotent, it leaves the flag false, and no input (a construction, a
  \<open>stop()\<close>, a frame) sets the flag of an existing object back to true: once false, it is
  false after every further sequence of inputs.
\<close>

theorem stop_idempotent_flag_monotone:
  "snd (stop p this (snd (stop p this w))) = snd (stop p this w) \<and>
   (p \<noteq> Part_000 \<longrightarrow> \<not> running (store (snd (stop p this w)) this)) \<and>
   (this < next_obj w \<and> \<not> running (store w this) \<longrightarrow>
      \<not> running (store (run h m p w ins) this))"
proof (intro conjI impI)
  show "snd (stop p this (snd (stop p this w))) = snd (stop p this w)"
    by (simp add: stop_def throw_def assign_def)
  show "p \<noteq> Part_000 \<Longrightarrow> \<not> running (store (snd (stop p this w)) this)"
    by (simp add: stop_def assign_def)
  show "this < next_obj w \<and> \<not> running (store w this) \<Longrightarrow> \<not> running (store (run h m p w ins) this)"
    using evolves_run [of p w h m ins] by (auto simp add: evolves_def)
qed

theorem stop_idempotent_flag_monotone_witness:
  "snd (stop Cube 0 (snd (stop Cube 0 (run page glm Cube init_world [New 0])))) =
     snd (stop Cube 0 (run page glm Cube init_world [New 0])) \<and>
   Cube \<noteq> Part_000 \<and>
   \<not> running (store (snd (stop Cube 0 (run page glm Cube init_world [New 0]))) 0) \<and>
   0 < next_obj (snd (stop Cube 0 (run page glm Cube init_world [New 0]))) \<and>
   \<not> running (store (run page glm Cube (snd (stop Cube 0 (run page glm Cube init_world [New 0])))
        [Fire 16, New 20, Fire 33, Fire 50]) 0)"
  using stop_idempotent_flag_monotone [of Cube 0 "run page glm Cube init_world [New 0]"]
    stop_idempotent_flag_monotone [of Cube 0 "snd (stop Cube 0 (run page glm Cube init_world [New 0]))"
      page glm "[Fire 16, New 20, Fire 33, Fire 50]"]
  by (simp add: stop_def assign_def page_new built_simps init_simps)

section \<open>Stopping the frame loop\<close>

lemma draws_of_frame:
  assumes "sound h m p w" and "queue w = cb # q"
  shows "\<exists>g. filter is_draw (added w (step h m p w (Fire now))) = [GL g (DrawArrays TRIANGLES 0 3)]"
proof (cases cb)
  case (Loop_cube r)
  with assms obtain g where "gl (store w r) = Some g"
    by (auto simp add: sound_def cleared_def split: option.splits)
  with assms(2) Loop_cube show ?thesis
    by (simp add: loop_cube_exec log_def added_def)
next
  case (Loop_part001 r idm)
  with assms obtain g out where "gl (store w r) = Some g" "worldMatrix (store w r) = Some out"
    by (auto simp add: sound_def cleared_def split: option.splits)
  with assms(2) Loop_part001 show ?thesis
    by (simp add: loop_part001_exec log_def added_def)
qed

text \<open>
  C2. In a world the process can reach, after \<open>stop()\<close> on an object: its flag is false;
  whatever happens afterwards, at most one more of its frames runs (the one already
  pending, of which there is at most one) and no further frame is requested for it; and
  that pending frame still draws, because the loop reads the flag only after the draw
  call, and then asks for no other frame.
\<close>

theorem at_most_one_frame_after_stop:
  assumes "p \<noteq> Part_000" and "w = run h m p init_world before" and "this < next_obj w"
    and "ws = snd (stop p this w)"
  shows "\<not> running (store ws this) \<and>
     pending this ws \<le> 1 \<and>
     frames this (run h m p ws after) \<le> frames this w + 1 \<and>
     requests this (run h m p ws after) = requests this w \<and>
     (queue ws = cb # q \<and> self cb = this \<longrightarrow>
        (\<exists>g. filter is_draw (added ws (step h m p ws (Fire now))) = [GL g (DrawArrays TRIANGLES 0 3)]) \<and>
        pending this (step h m p ws (Fire now)) = 0 \<and>
        requests this (step h m p ws (Fire now)) = requests this w)"
proof -
  have sw: "sound h m p w" unfolding assms(2) by (rule sound_reachable)
  have ws: "ws = step h m p w (Stop this)" using assms by simp
  have sws: "sound h m p ws" unfolding ws using sw by (rule sound_step)
  have off: "\<not> running (store ws this)" using assms by (simp add: stop_def assign_def)
  have lt: "this < next_obj ws" using assms by (simp add: stop_def assign_def)
  have same: "frames this ws = frames this w" "requests this ws = requests this w"
    using assms by (simp_all add: stop_def assign_def frames_def requests_def)
  have one: "pending this ws \<le> 1" using sws by (rule pending_le_1)
  have later: "frames this (run h m p ws ins) + pending this (run h m p ws ins)
        \<le> frames this ws + pending this ws \<and> requests this (run h m p ws ins) = requests this ws"
    for ins using stopped_run [OF lt off, of h m p ins] by simp
  have "frames this (run h m p ws after) \<le> frames this w + 1"
    using later [of after] one same by linarith
  moreover have "requests this (run h m p ws after) = requests this w"
    using later [of after] same by simp
  moreover have "(\<exists>g. filter is_draw (added ws (step h m p ws (Fire now))) = [GL g (DrawArrays TRIANGLES 0 3)]) \<and>
        pending this (step h m p ws (Fire now)) = 0 \<and>
        requests this (step h m p ws (Fire now)) = requests this w"
    if q: "queue ws = cb # q \<and> self cb = this"
  proof -
    have d: "\<exists>g. filter is_draw (added ws (step h m p ws (Fire now))) = [GL g (DrawArrays TRIANGLES 0 3)]"
      using sws q by (intro draws_of_frame) simp_all
    have fr: "frames this (step h m p ws (Fire now)) = Suc (frames this ws)"
    proof (cases cb)
      case (Loop_cube r)
      with sws q obtain g where "gl (store ws r) = Some g"
        by (auto simp add: sound_def cleared_def split: option.splits)
      with q Loop_cube show ?thesis by (simp add: loop_cube_exec log_def frames_def)
    next
      case (Loop_part001 r idm)
      with sws q obtain g out where "gl (store ws r) = Some g" "worldMatrix (store ws r) = Some out"
        by (auto simp add: sound_def cleared_def split: option.splits)
      with q Loop_part001 show ?thesis by (simp add: loop_part001_exec log_def frames_def)
    qed
    have "pending this ws = 1" using one q by (simp add: pending_def)
    with later [of "[Fire now]"] fr same have "pending this (step h m p ws (Fire now)) = 0"
      by simp
    with d later [of "[Fire now]"] same show ?thesis by simp
  qed
  ultimately show ?thesis using off one by blast
qed


theorem at_most_one_frame_after_stop_witness:
  "Cube \<noteq> Part_000 \<and>
   0 < next_obj (run page glm Cube init_world [New 0]) \<and>
   queue (snd (stop Cube 0 (run page glm Cube init_world [New 0]))) = [Loop_cube 0] \<and>
   self (Loop_cube 0) = 0 \<and>
   \<not> running (store (snd (stop Cube 0 (run page glm Cube init_world [New 0]))) 0) \<and>
   frames 0 (run page glm Cube (snd (stop Cube 0 (run page glm Cube init_world [New 0])))
       [Fire 33, Fire 50, New 60, Fire 66])
     \<le> frames 0 (run page glm Cube init_world [New 0]) + 1 \<and>
   (\<exists>g. filter is_draw (added (snd (stop Cube 0 (run page glm Cube init_world [New 0])))
       (step page glm Cube (snd (stop Cube 0 (run page glm Cube init_world [New 0]))) (Fire 33))) =
      [GL g (DrawArrays TRIANGLES 0 3)]) \<and>
   pending 0 (step page glm Cube (snd (stop Cube 0 (run page glm Cube init_world [New 0]))) (Fire 33)) = 0"
proof -
  let ?w = "run page glm Cube init_world [New 0]"
  let ?ws = "snd (stop Cube 0 ?w)"
  have p: "Cube \<noteq> Part_000" by simp
  have lt: "0 < next_obj ?w" by (simp add: page_new built_simps init_simps)
  have q: "queue ?ws = [Loop_cube 0]"
    by (simp add: stop_def assign_def page_new built_simps init_simps)
  have s: "self (Loop_cube 0) = 0" by simp
  from at_most_one_frame_after_stop [OF p refl lt refl,
      where after = "[Fire 33, Fire 50, New 60, Fire 66]" and cb = "Loop_cube 0" and q = "[]"
        and now = 33] p lt q s
  show ?thesis by blast
qed

section \<open>Acquiring the context\<close>

lemma console_construction:
  "filter is_console (construction_events h m p c g n this now) =
     (if p = Part_000 then []
      else compile_report h n @ compile_report h (Suc n) @ link_report h (Suc (Suc n)) @
           validate_report h (Suc (Suc n)))"
  by (simp add: events_defs compile_report_def link_report_def validate_report_def
      del: triangleVertices.simps vertexShaderSource.simps)

lemma draws_construction:
  "p \<noteq> Part_000 \<Longrightarrow>
   filter is_draw (construction_events h m p c g n this now) = [GL g (DrawArrays TRIANGLES 0 3)]"
  by (simp add: events_defs del: triangleVertices.simps vertexShaderSource.simps)

lemma bufferData_construction:
  "p \<noteq> Part_000 \<Longrightarrow>
   filter is_bufferData (construction_events h m p c g n this now) =
     [GL g (BufferData ARRAY_BUFFER (triangleVertices p) STATIC_DRAW)]"
  by (simp add: events_defs del: triangleVertices.simps vertexShaderSource.simps)

lemma uploads_construction:
  "filter is_upload (construction_events h m Part_001 c g n this now) =
     [GL g (UniformMatrix4fv (uniformLocation h (Suc (Suc n)) ''matrixWorld'') False
        (mat4_identity m (replicate 16 0))),
      GL g (UniformMatrix4fv (uniformLocation h (Suc (Suc n)) ''matrixView'') False (view_matrix m)),
      GL g (UniformMatrix4fv (uniformLocation h (Suc (Suc n)) ''matrixProjection'') False
        (projection_matrix m)),
      GL g (UniformMatrix4fv (uniformLocation h (Suc (Suc n)) ''matrixWorld'') False
        (mat4_rotate m (mat4_identity m (replicate 16 0)) (mat4_identity m (replicate 16 0))
           (angle_at now) [0, 1, 0]))]"
  by (simp add: events_defs del: triangleVertices.simps vertexShaderSource.simps replicate.simps)

lemma added_built [simp]:
  "added w (built h m p c g now w) = construction_events h m p c g (next_handle w) (next_obj w) now"
  by (simp add: added_def built_simps)

text \<open>
  C7. When the canvas is there, the constructor (of each of the three files) asks the
  canvas for \<open>webgl\<close>, and for \<open>experimental-webgl\<close> exactly when the first answer is
  null; the field \<open>gl\<close> holds the first answer that is a context; there is no third
  request, and with no context at all the constructor ends in the TypeError of the next
  statement.
\<close>

theorem context_requested_under_two_names:
  assumes "elementById h ''game-surface'' = Some c"
  shows "filter is_getContext (added w (snd (App_new h m p now w))) =
           (if getContext_of h c ''webgl'' = None
            then [GetContext c ''webgl'', GetContext c ''experimental-webgl'']
            else [GetContext c ''webgl'']) \<and>
         gl (store (snd (App_new h m p now w)) (next_obj w)) =
           (case getContext_of h c ''webgl'' of
              None \<Rightarrow> getContext_of h c ''experimental-webgl'' | Some g \<Rightarrow> Some g) \<and>
         fst (App_new h m p now w) =
           (if getContext_of h c ''webgl'' = None \<and> getContext_of h c ''experimental-webgl'' = None
            then Inl TypeError else Inr (next_obj w))"
proof (cases "acquired h c")
  case None
  then have n: "getContext_of h c ''webgl'' = None" "getContext_of h c ''experimental-webgl'' = None"
    by (simp_all add: acquired_def split: option.splits)
  show ?thesis
    unfolding App_new_no_context [OF assms None]
    by (simp add: n added_def acquire_events_def blank_def)
next
  case (Some g)
  then have "getContext_of h c ''webgl'' \<noteq> None \<or> getContext_of h c ''experimental-webgl'' \<noteq> None"
    by (auto simp add: acquired_def split: option.splits)
  with Some show ?thesis
    unfolding App_new_success [OF assms Some]
    by (auto simp add: getContext_construction built_simps built_app_simps acquired_def
        split: option.splits)
qed

theorem context_requested_under_two_names_witness:
  "elementById old_browser ''game-surface'' = Some 0 \<and>
   filter is_getContext (added init_world (snd (App_new old_browser glm Cube 0 init_world))) =
     [GetContext 0 ''webgl'', GetContext 0 ''experimental-webgl''] \<and>
   gl (store (snd (App_new old_browser glm Cube 0 init_world)) 0) = Some 0 \<and>
   fst (App_new old_browser glm Cube 0 init_world) = Inr 0 \<and>
   elementById no_webgl ''game-surface'' = Some 0 \<and>
   fst (App_new no_webgl glm Part_000 0 init_world) = Inl TypeError"
proof -
  have a: "elementById old_browser ''game-surface'' = Some 0"
    by (simp add: old_browser_def page_def)
  have b: "elementById no_webgl ''game-surface'' = Some 0"
    by (simp add: no_webgl_def page_def)
  have c: "getContext_of old_browser 0 ''webgl'' = None"
    "getContext_of old_browser 0 ''experimental-webgl'' = Some 0"
    "getContext_of no_webgl 0 ''webgl'' = None"
    "getContext_of no_webgl 0 ''experimental-webgl'' = None"
    by (simp_all add: old_browser_def no_webgl_def page_def)
  from context_requested_under_two_names [OF a, of init_world glm Cube 0]
    context_requested_under_two_names [OF b, of init_world glm Part_000 0] a b
  show ?thesis by (simp add: c init_simps)
qed

section \<open>Failed shaders and programs\<close>

lemma status_queries_construction:
  "p \<noteq> Part_000 \<Longrightarrow>
   GL g (GetShaderParameter n COMPILE_STATUS) \<in> set (construction_events h m p c g n this now) \<and>
   GL g (GetShaderParameter (Suc n) COMPILE_STATUS) \<in> set (construction_events h m p c g n this now) \<and>
   GL g (GetProgramParameter (Suc (Suc n)) LINK_STATUS) \<in> set (construction_events h m p c g n this now) \<and>
   GL g (GetProgramParameter (Suc (Suc n)) VALIDATE_STATUS) \<in> set (construction_events h m p c g n this now)"
  by (simp add: construction_events_def addShader_events_def createProgram_events_def)

text \<open>
  C4. Whatever the source and whatever the driver answers: \<open>addShader\<close> queries
  \<open>COMPILE_STATUS\<close>, writes one console error exactly when the answer is false, raises
  nothing and returns the shader. The constructor (of cube.ts and of part_001) likewise
  queries the link and the validation status, writes one console error for each failure,
  raises nothing, keeps both shaders and the program in its fields, and goes on: it
  uploads the vertex data, draws the first frame and requests the next one.
\<close>

theorem failures_are_logged_and_ignored:
  assumes "elementById h ''game-surface'' = Some c" and "acquired h c = Some g"
    and "p \<noteq> Part_000" and "gl (store v this) = Some g'"
    and "w' = snd (App_new h m p now w)"
  shows "fst (addShader h this src ty v) = Inr (next_handle v) \<and>
     GL g' (GetShaderParameter (next_handle v) COMPILE_STATUS)
        \<in> set (added v (snd (addShader h this src ty v))) \<and>
     filter is_console (added v (snd (addShader h this src ty v))) = compile_report h (next_handle v) \<and>
     fst (App_new h m p now w) = Inr (next_obj w) \<and>
     vertexShader (store w' (next_obj w)) = Some (next_handle w) \<and>
     fragmentShader (store w' (next_obj w)) = Some (next_handle w + 1) \<and>
     program (store w' (next_obj w)) = Some (next_handle w + 2) \<and>
     GL g (GetShaderParameter (next_handle w) COMPILE_STATUS) \<in> set (added w w') \<and>
     GL g (GetShaderParameter (next_handle w + 1) COMPILE_STATUS) \<in> set (added w w') \<and>
     GL g (GetProgramParameter (next_handle w + 2) LINK_STATUS) \<in> set (added w w') \<and>
     GL g (GetProgramParameter (next_handle w + 2) VALIDATE_STATUS) \<in> set (added w w') \<and>
     filter is_console (added w w') =
       compile_report h (next_handle w) @ compile_report h (next_handle w + 1) @
       link_report h (next_handle w + 2) @ validate_report h (next_handle w + 2) \<and>
     filter is_bufferData (added w w') = [GL g (BufferData ARRAY_BUFFER (triangleVertices p) STATIC_DRAW)] \<and>
     filter is_draw (added w w') = [GL g (DrawArrays TRIANGLES 0 3)] \<and>
     queue w' = queue w @ [if p = Part_001 then Loop_part001 (next_obj w) (mat4_identity m (replicate 16 0))
                           else Loop_cube (next_obj w)]"
proof -
  have shader: "fst (addShader h this src ty v) = Inr (next_handle v) \<and>
     GL g' (GetShaderParameter (next_handle v) COMPILE_STATUS)
        \<in> set (added v (snd (addShader h this src ty v))) \<and>
     filter is_console (added v (snd (addShader h this src ty v))) = compile_report h (next_handle v)"
    unfolding addShader_exec [OF assms(4)]
    by (simp add: added_def addShader_events_def compile_report_def)
  have w': "w' = built h m p c g now w"
    unfolding assms(5) App_new_success [OF assms(1,2)] by simp
  have two: "next_handle w + 1 = Suc (next_handle w)" "next_handle w + 2 = Suc (Suc (next_handle w))"
    by simp_all
  have new: "fst (App_new h m p now w) = Inr (next_obj w)"
    unfolding App_new_success [OF assms(1,2)] by simp
  have fields: "vertexShader (store w' (next_obj w)) = Some (next_handle w)"
    "fragmentShader (store w' (next_obj w)) = Some (next_handle w + 1)"
    "program (store w' (next_obj w)) = Some (next_handle w + 2)"
    unfolding w' using assms(3) by (simp_all add: built_simps built_app_simps)
  have queries: "GL g (GetShaderParameter (next_handle w) COMPILE_STATUS) \<in> set (added w w')"
     "GL g (GetShaderParameter (next_handle w + 1) COMPILE_STATUS) \<in> set (added w w')"
     "GL g (GetProgramParameter (next_handle w + 2) LINK_STATUS) \<in> set (added w w')"
     "GL g (GetProgramParameter (next_handle w + 2) VALIDATE_STATUS) \<in> set (added w w')"
    unfolding w' two added_built
    using status_queries_construction [OF assms(3), of g "next_handle w" h m c "next_obj w" now]
    by simp_all
  have console: "filter is_console (added w w') =
       compile_report h (next_handle w) @ compile_report h (next_handle w + 1) @
       link_report h (next_handle w + 2) @ validate_report h (next_handle w + 2)"
    unfolding w' two added_built using assms(3) by (simp add: console_construction)
  have rest: "filter is_bufferData (added w w') = [GL g (BufferData ARRAY_BUFFER (triangleVertices p) STATIC_DRAW)]"
    "filter is_draw (added w w') = [GL g (DrawArrays TRIANGLES 0 3)]"
    unfolding w' added_built using assms(3)
    by (simp_all add: bufferData_construction draws_construction)
  have q: "queue w' = queue w @ [if p = Part_001 then Loop_part001 (next_obj w) (mat4_identity m (replicate 16 0))
                           else Loop_cube (next_obj w)]"
    unfolding w' using assms(3) by (simp add: built_simps)
  from shader new fields queries console rest q show ?thesis by blast
qed

lemma strict_canvas: "elementById strict_driver ''game-surface'' = Some 0"
  by (simp add: strict_driver_def page_def)

lemma strict_context: "acquired strict_driver 0 = Some 0"
  by (simp add: strict_driver_def page_def acquired_def)

theorem failures_are_logged_and_ignored_witness:
  "elementById strict_driver ''game-surface'' = Some 0 \<and> acquired strict_driver 0 = Some 0 \<and>
   Part_001 \<noteq> Part_000 \<and>
   gl (store (snd (App_new strict_driver glm Part_001 0 init_world)) 0) = Some 0 \<and>
   fst (addShader strict_driver 0 ''void main(){'' VERTEX_SHADER
          (snd (App_new strict_driver glm Part_001 0 init_world))) = Inr 4 \<and>
   filter is_console (added (snd (App_new strict_driver glm Part_001 0 init_world))
       (snd (addShader strict_driver 0 ''void main(){'' VERTEX_SHADER
          (snd (App_new strict_driver glm Part_001 0 init_world))))) =
     [ConsoleError ''Error compiling shader '' ''syntax error''] \<and>
   fst (App_new strict_driver glm Part_001 0 init_world) = Inr 0 \<and>
   program (store (snd (App_new strict_driver glm Part_001 0 init_world)) 0) = Some 2 \<and>
   filter is_console (added init_world (snd (App_new strict_driver glm Part_001 0 init_world))) =
     [ConsoleError ''Error compiling shader '' ''syntax error'',
      ConsoleError ''Error compiling shader '' ''syntax error'',
      ConsoleError ''Could not link program'' ''not linked'',
      ConsoleError ''ERROR invalidating program'' ''not linked''] \<and>
   filter is_draw (added init_world (snd (App_new strict_driver glm Part_001 0 init_world))) =
     [GL 0 (DrawArrays TRIANGLES 0 3)] \<and>
   queue (snd (App_new strict_driver glm Part_001 0 init_world)) =
     [Loop_part001 0 (mat4_identity glm (replicate 16 0))]"
proof -
  let ?w' = "snd (App_new strict_driver glm Part_001 0 init_world)"
  have p: "Part_001 \<noteq> Part_000" by simp
  have g: "gl (store ?w' 0) = Some 0"
    by (simp add: App_new_success [OF strict_canvas strict_context] built_simps built_app_simps
        init_simps)
  have n: "next_handle ?w' = 4"
    by (simp add: App_new_success [OF strict_canvas strict_context] built_def init_simps)
  have r: "compile_report strict_driver k = [ConsoleError ''Error compiling shader '' ''syntax error'']"
    "link_report strict_driver k = [ConsoleError ''Could not link program'' ''not linked'']"
    "validate_report strict_driver k = [ConsoleError ''ERROR invalidating program'' ''not linked'']"
    for k
    by (simp_all add: compile_report_def link_report_def validate_report_def strict_driver_def)
  from failures_are_logged_and_ignored [OF strict_canvas strict_context p g refl,
      where src = "''void main(){''" and ty = VERTEX_SHADER and m = glm and now = 0 and w = init_world]
    strict_canvas strict_context g
  show ?thesis by (simp add: n r init_simps)
qed

section \<open>The vertex buffer\<close>

lemma no_bufferData_after_init:
  "i = Fire t \<or> i = Stop r \<Longrightarrow> filter is_bufferData (added v (step h m p v i)) = []"
proof (cases rule: step_cases [where i = i and h = h and p = p and w = v and m = m])
  case (no_canvas now)
  assume "i = Fire t \<or> i = Stop r"
  with no_canvas(1) show ?thesis by simp
next
  case (no_context now c)
  assume "i = Fire t \<or> i = Stop r"
  with no_context(1) show ?thesis by simp
next
  case (constructed now c g)
  assume "i = Fire t \<or> i = Stop r"
  with constructed(1) show ?thesis by simp
next
  case (stopped this)
  show ?thesis unfolding stopped(4) by (simp add: added_def)
next
  case idle
  show ?thesis unfolding idle by simp
next
  case (aborted now cb q)
  show ?thesis unfolding aborted(4) by (simp add: added_def)
next
  case (aborted_late now r idm q out)
  show ?thesis unfolding aborted_late(5) by (simp add: added_def)
next
  case (frame_cube now r q g)
  show ?thesis unfolding frame_cube(4) by (simp add: added_def)
next
  case (frame_part001 now r idm q g out)
  show ?thesis unfolding frame_part001(5) by (simp add: added_def)
qed

lemma pointer_construction:
  "p \<noteq> Part_000 \<Longrightarrow>
   GL g (VertexAttribPointer (attribLocation h (Suc (Suc n)) ''vertPosition'')
     (if p = Part_001 then 3 else 2) FLOAT False ((if p = Part_001 then 6 else 5) * 4) 0)
     \<in> set (construction_events h m p c g n this now)"
  by (simp add: construction_events_def createBuffer_events_def attrib_events_def)

text \<open>
  C3. The array literal has 3 vertices of 5 floats (cube.ts) or 6 floats (part_001), and
  the position pointer is set with that stride. A construction uploads it once, into the
  buffer it has just created and bound. After that, whatever the process does, the buffer
  holds that data; a frame or a \<open>stop()\<close> uploads nothing; and every \<open>bufferData\<close> call
  ever logged carries the literal, every \<open>drawArrays\<close> call ever logged asks for 3
  vertices from index 0 (\<open>TRIANGLES\<close> is the only mode of the model).
\<close>

theorem vertex_buffer_uploaded_once:
  assumes "p \<noteq> Part_000" and "elementById h ''game-surface'' = Some c" and "acquired h c = Some g"
    and "w = run h m p init_world before" and "w' = snd (App_new h m p now w)"
    and "b = next_handle w + 3" and "i = Fire t \<or> i = Stop r"
  shows "length (triangleVertices Cube) = 3 * 5 \<and> length (triangleVertices Part_001) = 3 * 6 \<and>
     GL g (VertexAttribPointer (attribLocation h (next_handle w + 2) ''vertPosition'')
        (if p = Part_001 then 3 else 2) FLOAT False ((if p = Part_001 then 6 else 5) * 4) 0)
        \<in> set (added w w') \<and>
     filter is_bufferData (added w w') = [GL g (BufferData ARRAY_BUFFER (triangleVertices p) STATIC_DRAW)] \<and>
     array_buffer (gls w' g) = Some b \<and>
     buffer_data (gls w' g) b = Some (triangleVertices p) \<and>
     buffer_data (gls (run h m p w' after) g) b = Some (triangleVertices p) \<and>
     filter is_bufferData (added v (step h m p v i)) = [] \<and>
     list_all (fixed_event p) (trace (run h m p w' after))"
proof -
  have w': "w' = built h m p c g now w"
    unfolding assms(5) App_new_success [OF assms(2,3)] by simp
  have b: "b = Suc (Suc (Suc (next_handle w)))" using assms(6) by simp
  have len: "length (triangleVertices Cube) = 3 * 5" "length (triangleVertices Part_001) = 3 * 6"
    by simp_all
  have ptr: "GL g (VertexAttribPointer (attribLocation h (next_handle w + 2) ''vertPosition'')
        (if p = Part_001 then 3 else 2) FLOAT False ((if p = Part_001 then 6 else 5) * 4) 0)
        \<in> set (added w w')"
    unfolding w' added_built
    using pointer_construction [OF assms(1), of g h "next_handle w" m c "next_obj w" now]
    by simp
  have up: "filter is_bufferData (added w w') = [GL g (BufferData ARRAY_BUFFER (triangleVertices p) STATIC_DRAW)]"
    unfolding w' added_built using assms(1) by (rule bufferData_construction)
  have now_there: "array_buffer (gls w' g) = Some b" "buffer_data (gls w' g) b = Some (triangleVertices p)"
    unfolding w' b using assms(1) by (simp_all add: built_simps built_gl_def)
  have "b < next_handle w'" unfolding w' b using assms(1) by (simp add: built_def)
  with evolves_run [of p w' h m after]
  have "buffer_data (gls (run h m p w' after) g) b = buffer_data (gls w' g) b"
    by (simp add: evolves_def)
  with now_there have stays: "buffer_data (gls (run h m p w' after) g) b = Some (triangleVertices p)"
    by simp
  have "run h m p w' after = run h m p init_world (before @ New now # after)"
    unfolding assms(5) assms(4) by (simp add: run_append)
  then have "sound h m p (run h m p w' after)" by (simp add: sound_reachable)
  then have fixed: "list_all (fixed_event p) (trace (run h m p w' after))"
    by (simp add: sound_def)
  from len ptr up now_there stays fixed no_bufferData_after_init [OF assms(7), of v h m p]
  show ?thesis by blast
qed

theorem vertex_buffer_uploaded_once_witness:
  "Cube \<noteq> Part_000 \<and> elementById page ''game-surface'' = Some 0 \<and> acquired page 0 = Some 0 \<and>
   filter is_bufferData (added init_world (snd (App_new page glm Cube 0 init_world))) =
     [GL 0 (BufferData ARRAY_BUFFER [0, 0.5, 1, 0, 0,  - 0.5, - 0.5, 0, 1, 0,  0.5, - 0.5, 0, 0, 1] STATIC_DRAW)] \<and>
   array_buffer (gls (snd (App_new page glm Cube 0 init_world)) 0) = Some 3 \<and>
   buffer_data (gls (run page glm Cube (snd (App_new page glm Cube 0 init_world))
       [Fire 16, New 20, Fire 33, Stop 0, Fire 50]) 0) 3 =
     Some [0, 0.5, 1, 0, 0,  - 0.5, - 0.5, 0, 1, 0,  0.5, - 0.5, 0, 0, 1] \<and>
   filter is_bufferData (added (snd (App_new page glm Cube 0 init_world))
       (step page glm Cube (snd (App_new page glm Cube 0 init_world)) (Fire 16))) = [] \<and>
   list_all (fixed_event Cube) (trace (run page glm Cube (snd (App_new page glm Cube 0 init_world))
       [Fire 16, New 20, Fire 33, Stop 0, Fire 50]))"
proof -
  have p: "Cube \<noteq> Part_000" by simp
  have w: "init_world = run page glm Cube init_world []" by simp
  have i: "Fire 16 = Fire 16 \<or> Fire 16 = Stop 0" by simp
  have b: "3 = next_handle init_world + 3" by (simp add: init_simps)
  from vertex_buffer_uploaded_once [where m = glm and now = 0 and before = "[]"
        and after = "[Fire 16, New 20, Fire 33, Stop 0, Fire 50]"
        and v = "snd (App_new page glm Cube 0 init_world)" and t = 16 and r = 0,
      OF p page_canvas page_context w refl b i]
    page_canvas page_context
  show ?thesis by simp
qed

section \<open>The world matrix\<close>

lemma frame_part001_sound:
  assumes "sound h m Part_001 w" and "queue w = cb # q"
  obtains r g out pr where
    "cb = Loop_part001 r (mat4_identity m (replicate 16 0))"
    "gl (store w r) = Some g" "worldMatrix (store w r) = Some out"
    "program (store w r) = Some pr"
    "worldAttributeLocation (store w r) = uniformLocation h pr ''matrixWorld''"
    "step h m Part_001 w (Fire now) =
       w\<lparr>store := (store w)(r := (store w r)\<lparr>worldMatrix :=
            Some (mat4_rotate m out (mat4_identity m (replicate 16 0)) (angle_at now) [0, 1, 0])\<rparr>),
         trace := trace w @ [Callback cb,
            GL g (UniformMatrix4fv (worldAttributeLocation (store w r)) False
              (mat4_rotate m out (mat4_identity m (replicate 16 0)) (angle_at now) [0, 1, 0])),
            GL g (Clear both_buffers), GL g (DrawArrays TRIANGLES 0 3)] @
            (if running (store w r) then [RequestAnimationFrame cb] else []),
         queue := q @ (if running (store w r) then [cb] else [])\<rparr>"
proof -
  from assms have sc: "sound_callback h m Part_001 w cb" by (simp add: sound_def)
  then obtain r idm where cb: "cb = Loop_part001 r idm" by (cases cb) simp_all
  from sc cb have idm: "idm = mat4_identity m (replicate 16 0)" by simp
  from sc cb obtain g where g: "gl (store w r) = Some g"
    by (auto simp add: cleared_def split: option.splits)
  from sc cb obtain out where out: "worldMatrix (store w r) = Some out" by auto
  from sc cb obtain pr where pr: "program (store w r) = Some pr"
    "worldAttributeLocation (store w r) = uniformLocation h pr ''matrixWorld''"
    by (auto split: option.splits)
  have "step h m Part_001 w (Fire now) =
       w\<lparr>store := (store w)(r := (store w r)\<lparr>worldMatrix :=
            Some (mat4_rotate m out (mat4_identity m (replicate 16 0)) (angle_at now) [0, 1, 0])\<rparr>),
         trace := trace w @ [Callback cb,
            GL g (UniformMatrix4fv (worldAttributeLocation (store w r)) False
              (mat4_rotate m out (mat4_identity m (replicate 16 0)) (angle_at now) [0, 1, 0])),
            GL g (Clear both_buffers), GL g (DrawArrays TRIANGLES 0 3)] @
            (if running (store w r) then [RequestAnimationFrame cb] else []),
         queue := q @ (if running (store w r) then [cb] else [])\<rparr>"
    using assms(2) g out unfolding cb idm
    by (simp add: loop_part001_exec log_def del: replicate.simps)
  with cb idm g out pr show thesis by (intro that [of r g out pr]) simp_all
qed

text \<open>
  C1. In part_001, in every world the process can reach, the frame the browser runs next
  leaves in \<open>this.worldMatrix\<close>, and uploads, \<open>mat4.rotate(out, identityMatrix, angle,
  [0, 1, 0])\<close> with \<open>identityMatrix = mat4.identity(...)\<close> and
  \<open>angle = (Date.now() / 6000) * 2\<pi>\<close>, numbers being reals. The same holds of the first
  frame, which the constructor runs itself.
\<close>

theorem world_matrix_is_rotation_about_Y:
  assumes "w = run h m Part_001 init_world before" and "queue w = cb # q"
    and "w' = step h m Part_001 w (Fire now)"
    and "identityMatrix = mat4_identity m (replicate 16 0)"
  shows "(\<exists>out g. cb = Loop_part001 (self cb) identityMatrix \<and>
        worldMatrix (store w (self cb)) = Some out \<and> gl (store w (self cb)) = Some g \<and>
        worldMatrix (store w' (self cb)) =
          Some (mat4_rotate m out identityMatrix (real now / 6000 * (2 * pi)) [0, 1, 0]) \<and>
        filter is_upload (added w w') =
          [GL g (UniformMatrix4fv (worldAttributeLocation (store w (self cb))) False
             (mat4_rotate m out identityMatrix (real now / 6000 * (2 * pi)) [0, 1, 0]))]) \<and>
     (elementById h ''game-surface'' = Some c \<and> acquired h c = Some g0 \<longrightarrow>
        worldMatrix (store (snd (App_new h m Part_001 t0 v)) (next_obj v)) =
          Some (mat4_rotate m identityMatrix identityMatrix (real t0 / 6000 * (2 * pi)) [0, 1, 0]))"
proof (intro conjI impI)
  have s: "sound h m Part_001 w" unfolding assms(1) by (rule sound_reachable)
  from s assms(2) obtain r g out pr where f:
    "cb = Loop_part001 r (mat4_identity m (replicate 16 0))"
    "gl (store w r) = Some g" "worldMatrix (store w r) = Some out"
    "step h m Part_001 w (Fire now) =
       w\<lparr>store := (store w)(r := (store w r)\<lparr>worldMatrix :=
            Some (mat4_rotate m out (mat4_identity m (replicate 16 0)) (angle_at now) [0, 1, 0])\<rparr>),
         trace := trace w @ [Callback cb,
            GL g (UniformMatrix4fv (worldAttributeLocation (store w r)) False
              (mat4_rotate m out (mat4_identity m (replicate 16 0)) (angle_at now) [0, 1, 0])),
            GL g (Clear both_buffers), GL g (DrawArrays TRIANGLES 0 3)] @
            (if running (store w r) then [RequestAnimationFrame cb] else []),
         queue := q @ (if running (store w r) then [cb] else [])\<rparr>"
    by (rule frame_part001_sound [where now = now])
  have r: "self cb = r" using f(1) by simp
  show "\<exists>out g. cb = Loop_part001 (self cb) identityMatrix \<and>
        worldMatrix (store w (self cb)) = Some out \<and> gl (store w (self cb)) = Some g \<and>
        worldMatrix (store w' (self cb)) =
          Some (mat4_rotate m out identityMatrix (real now / 6000 * (2 * pi)) [0, 1, 0]) \<and>
        filter is_upload (added w w') =
          [GL g (UniformMatrix4fv (worldAttributeLocation (store w (self cb))) False
             (mat4_rotate m out identityMatrix (real now / 6000 * (2 * pi)) [0, 1, 0]))]"
    unfolding r assms(3) assms(4) f(4) angle_at_eq using f(1,2,3)
    by (intro exI [of _ out] exI [of _ g]) (simp add: added_def del: replicate.simps)
next
  assume "elementById h ''game-surface'' = Some c \<and> acquired h c = Some g0"
  then have "snd (App_new h m Part_001 t0 v) = built h m Part_001 c g0 t0 v"
    by (simp add: App_new_success)
  then show "worldMatrix (store (snd (App_new h m Part_001 t0 v)) (next_obj v)) =
          Some (mat4_rotate m identityMatrix identityMatrix (real t0 / 6000 * (2 * pi)) [0, 1, 0])"
    unfolding assms(4) by (simp add: built_simps built_app_def angle_at_eq del: replicate.simps)
qed

text \<open>
  With gl-matrix's own formulas the matrix is the rotation about the Y axis, in
  column-major order; for instance the quarter turn, 1500 ms after a multiple of 6000 ms.
\<close>

lemma glm_rotate_about_Y:
  "mat4_rotate glm out (mat4_identity glm z) a [0, 1, 0] =
     [cos a, 0, - sin a, 0,  0, 1, 0, 0,  sin a, 0, cos a, 0,  0, 0, 0, 1]"
  by (simp add: glm_def glm_rotate_def glm_identity_def EPSILON_def Let_def)

lemma quarter_turn:
  "mat4_rotate glm out (mat4_identity glm (replicate 16 0)) (real 1500 / 6000 * (2 * pi)) [0, 1, 0] =
     [0, 0, - 1, 0,  0, 1, 0, 0,  1, 0, 0, 0,  0, 0, 0, 1]"
  by (simp add: glm_rotate_about_Y)

theorem world_matrix_is_rotation_about_Y_witness:
  "queue (run page glm Part_001 init_world [New 0]) = [Loop_part001 0 (mat4_identity glm (replicate 16 0))] \<and>
   elementById page ''game-surface'' = Some 0 \<and> acquired page 0 = Some 0 \<and>
   worldMatrix (store (step page glm Part_001 (run page glm Part_001 init_world [New 0]) (Fire 1500)) 0) =
     Some [0, 0, - 1, 0,  0, 1, 0, 0,  1, 0, 0, 0,  0, 0, 0, 1] \<and>
   worldMatrix (store (snd (App_new page glm Part_001 1500 init_world)) 0) =
     Some [0, 0, - 1, 0,  0, 1, 0, 0,  1, 0, 0, 0,  0, 0, 0, 1]"
proof -
  let ?w = "run page glm Part_001 init_world [New 0]"
  let ?cb = "Loop_part001 0 (mat4_identity glm (replicate 16 0))"
  have q: "queue ?w = ?cb # []"
    by (simp add: page_new built_simps init_simps del: replicate.simps)
  note t = world_matrix_is_rotation_about_Y [OF refl q refl refl,
      where now = 1500 and c = 0 and ?g0.0 = 0 and ?t0.0 = 1500 and v = init_world]
  from t obtain out where
    "worldMatrix (store (step page glm Part_001 ?w (Fire 1500)) (self ?cb)) =
       Some (mat4_rotate glm out (mat4_identity glm (replicate 16 0)) (real 1500 / 6000 * (2 * pi)) [0, 1, 0])"
    by blast
  then have a: "worldMatrix (store (step page glm Part_001 ?w (Fire 1500)) 0) =
     Some [0, 0, - 1, 0,  0, 1, 0, 0,  1, 0, 0, 0,  0, 0, 0, 1]"
    by (simp only: quarter_turn self.simps)
  from t page_canvas page_context
  have "worldMatrix (store (snd (App_new page glm Part_001 1500 init_world)) (next_obj init_world)) =
     Some (mat4_rotate glm (mat4_identity glm (replicate 16 0)) (mat4_identity glm (replicate 16 0))
       (real 1500 / 6000 * (2 * pi)) [0, 1, 0])"
    by blast
  then have b: "worldMatrix (store (snd (App_new page glm Part_001 1500 init_world)) 0) =
     Some [0, 0, - 1, 0,  0, 1, 0, 0,  1, 0, 0, 0,  0, 0, 0, 1]"
    by (simp only: quarter_turn init_simps)
  from q a b page_canvas page_context show ?thesis by simp
qed

section \<open>The view and projection matrices\<close>

text \<open>
  C10. In part_001 a construction uploads four matrices, in this order: the identity to
  the location of \<open>matrixWorld\<close>, \<open>lookAt\<close> with eye (0, 0, -2), centre (0, 0, 0) and up
  (0, 1, 0) to the location of \<open>matrixView\<close>, \<open>perspective\<close> with 45 degrees, aspect
  800 / 600, near 0.1 and far 1000.1 to the location of \<open>matrixProjection\<close>, and (the first
  frame) the rotated world matrix to the location of \<open>matrixWorld\<close>. In every world the
  process reaches afterwards, a frame uploads one matrix, to the location of
  \<open>matrixWorld\<close> in the program of the object whose frame it is.
\<close>

theorem view_and_projection_uploaded_once:
  assumes "elementById h ''game-surface'' = Some c" and "acquired h c = Some g"
    and "w = run h m Part_001 init_world before" and "w' = snd (App_new h m Part_001 t0 w)"
    and "pr = next_handle w + 2"
    and "v = run h m Part_001 w' after" and "v' = step h m Part_001 v (Fire t)"
  shows "filter is_upload (added w w') =
       [GL g (UniformMatrix4fv (uniformLocation h pr ''matrixWorld'') False
          (mat4_identity m (replicate 16 0))),
        GL g (UniformMatrix4fv (uniformLocation h pr ''matrixView'') False
          (mat4_lookAt m (replicate 16 0) [0, 0, -2] [0, 0, 0] [0, 1, 0])),
        GL g (UniformMatrix4fv (uniformLocation h pr ''matrixProjection'') False
          (mat4_perspective m (replicate 16 0) (toRadian m 45) (800 / 600) 0.1 1000.1)),
        GL g (UniformMatrix4fv (uniformLocation h pr ''matrixWorld'') False
          (mat4_rotate m (mat4_identity m (replicate 16 0)) (mat4_identity m (replicate 16 0))
             (real t0 / 6000 * (2 * pi)) [0, 1, 0]))] \<and>
     (queue v = [] \<longrightarrow> filter is_upload (added v v') = []) \<and>
     (queue v = cb # q \<longrightarrow>
        (\<exists>g' pr' out. gl (store v (self cb)) = Some g' \<and> program (store v (self cb)) = Some pr' \<and>
           worldMatrix (store v (self cb)) = Some out \<and>
           filter is_upload (added v v') =
             [GL g' (UniformMatrix4fv (uniformLocation h pr' ''matrixWorld'') False
                (mat4_rotate m out (mat4_identity m (replicate 16 0))
                   (real t / 6000 * (2 * pi)) [0, 1, 0]))]))"
proof (intro conjI impI)
  have w': "w' = built h m Part_001 c g t0 w"
    unfolding assms(4) App_new_success [OF assms(1,2)] by simp
  show "filter is_upload (added w w') =
       [GL g (UniformMatrix4fv (uniformLocation h pr ''matrixWorld'') False
          (mat4_identity m (replicate 16 0))),
        GL g (UniformMatrix4fv (uniformLocation h pr ''matrixView'') False
          (mat4_lookAt m (replicate 16 0) [0, 0, -2] [0, 0, 0] [0, 1, 0])),
        GL g (UniformMatrix4fv (uniformLocation h pr ''matrixProjection'') False
          (mat4_perspective m (replicate 16 0) (toRadian m 45) (800 / 600) 0.1 1000.1)),
        GL g (UniformMatrix4fv (uniformLocation h pr ''matrixWorld'') False
          (mat4_rotate m (mat4_identity m (replicate 16 0)) (mat4_identity m (replicate 16 0))
             (real t0 / 6000 * (2 * pi)) [0, 1, 0]))]"
    unfolding w' added_built uploads_construction assms(5) angle_at_eq view_matrix_def
      projection_matrix_def
    by simp
next
  assume "queue v = []"
  then show "filter is_upload (added v v') = []" unfolding assms(7) by simp
next
  assume q: "queue v = cb # q"
  have "v = run h m Part_001 init_world (before @ New t0 # after)"
    unfolding assms(6) assms(4) assms(3) by (simp add: run_append)
  then have s: "sound h m Part_001 v" by (simp add: sound_reachable)
  from s q obtain r g' out pr' where f:
    "cb = Loop_part001 r (mat4_identity m (replicate 16 0))"
    "gl (store v r) = Some g'" "worldMatrix (store v r) = Some out"
    "program (store v r) = Some pr'"
    "worldAttributeLocation (store v r) = uniformLocation h pr' ''matrixWorld''"
    "step h m Part_001 v (Fire t) =
       v\<lparr>store := (store v)(r := (store v r)\<lparr>worldMatrix :=
            Some (mat4_rotate m out (mat4_identity m (replicate 16 0)) (angle_at t) [0, 1, 0])\<rparr>),
         trace := trace v @ [Callback cb,
            GL g' (UniformMatrix4fv (worldAttributeLocation (store v r)) False
              (mat4_rotate m out (mat4_identity m (replicate 16 0)) (angle_at t) [0, 1, 0])),
            GL g' (Clear both_buffers), GL g' (DrawArrays TRIANGLES 0 3)] @
            (if running (store v r) then [RequestAnimationFrame cb] else []),
         queue := q @ (if running (store v r) then [cb] else [])\<rparr>"
    by (rule frame_part001_sound [where now = t])
  have r: "self cb = r" using f(1) by simp
  show "\<exists>g' pr' out. gl (store v (self cb)) = Some g' \<and> program (store v (self cb)) = Some pr' \<and>
           worldMatrix (store v (self cb)) = Some out \<and>
           filter is_upload (added v v') =
             [GL g' (UniformMatrix4fv (uniformLocation h pr' ''matrixWorld'') False
                (mat4_rotate m out (mat4_identity m (replicate 16 0))
                   (real t / 6000 * (2 * pi)) [0, 1, 0]))]"
    unfolding r assms(7) f(6) angle_at_eq using f(2,3,4,5)
    by (intro exI [of _ g'] exI [of _ pr'] exI [of _ out]) (simp add: added_def del: replicate.simps)
qed

theorem view_and_projection_uploaded_once_witness:
  "elementById page ''game-surface'' = Some 0 \<and> acquired page 0 = Some 0 \<and>
   filter is_upload (added init_world (snd (App_new page glm Part_001 0 init_world))) =
     [GL 0 (UniformMatrix4fv (Some 0) False (mat4_identity glm (replicate 16 0))),
      GL 0 (UniformMatrix4fv (Some 1) False
        (mat4_lookAt glm (replicate 16 0) [0, 0, -2] [0, 0, 0] [0, 1, 0])),
      GL 0 (UniformMatrix4fv (Some 2) False
        (mat4_perspective glm (replicate 16 0) (toRadian glm 45) (800 / 600) 0.1 1000.1)),
      GL 0 (UniformMatrix4fv (Some 0) False
        (mat4_rotate glm (mat4_identity glm (replicate 16 0)) (mat4_identity glm (replicate 16 0))
           (real 0 / 6000 * (2 * pi)) [0, 1, 0]))] \<and>
   queue (run page glm Part_001 (snd (App_new page glm Part_001 0 init_world)) []) =
     [Loop_part001 0 (mat4_identity glm (replicate 16 0))] \<and>
   (\<exists>g' pr' out.
      filter is_upload (added (run page glm Part_001 (snd (App_new page glm Part_001 0 init_world)) [])
        (step page glm Part_001
           (run page glm Part_001 (snd (App_new page glm Part_001 0 init_world)) []) (Fire 1500))) =
      [GL g' (UniformMatrix4fv (uniformLocation page pr' ''matrixWorld'') False
         (mat4_rotate glm out (mat4_identity glm (replicate 16 0))
            (real 1500 / 6000 * (2 * pi)) [0, 1, 0]))]) \<and>
   queue (run page glm Part_001 (snd (App_new page glm Part_001 0 init_world)) [Stop 0, Fire 16]) = [] \<and>
   filter is_upload
     (added (run page glm Part_001 (snd (App_new page glm Part_001 0 init_world)) [Stop 0, Fire 16])
        (step page glm Part_001
           (run page glm Part_001 (snd (App_new page glm Part_001 0 init_world)) [Stop 0, Fire 16])
           (Fire 33))) = []"
proof -
  let ?w' = "snd (App_new page glm Part_001 0 init_world)"
  let ?cb = "Loop_part001 0 (mat4_identity glm (replicate 16 0))"
  have w: "init_world = run page glm Part_001 init_world []" by simp
  have pr: "2 = next_handle init_world + 2" by (simp add: init_simps)
  have q1: "queue (run page glm Part_001 ?w' []) = ?cb # []"
    by (simp add: page_new built_simps init_simps del: replicate.simps)
  have g: "gl (store ?w' 0) = Some 0" "worldMatrix (store ?w' 0) \<noteq> None"
    by (simp_all add: page_new built_simps built_app_def init_simps)
  have q2: "queue (run page glm Part_001 ?w' [Stop 0, Fire 16]) = []"
    using g
    by (auto simp add: page_new built_simps built_app_def init_simps stop_def assign_def
        loop_part001_exec log_def simp del: replicate.simps)
  have u: "uniformLocation page k ''matrixWorld'' = Some 0"
    "uniformLocation page k ''matrixView'' = Some 1"
    "uniformLocation page k ''matrixProjection'' = Some 2" for k
    by (simp_all add: page_def)
  note t1 = view_and_projection_uploaded_once [where m = glm and ?t0.0 = 0 and before = "[]"
      and after = "[]" and t = 1500 and cb = ?cb and q = "[]",
      OF page_canvas page_context w refl pr refl refl]
  note t2 = view_and_projection_uploaded_once [where m = glm and ?t0.0 = 0 and before = "[]"
      and after = "[Stop 0, Fire 16]" and t = 33,
      OF page_canvas page_context w refl pr refl refl]
  from t1 have a: "filter is_upload (added init_world ?w') =
     [GL 0 (UniformMatrix4fv (Some 0) False (mat4_identity glm (replicate 16 0))),
      GL 0 (UniformMatrix4fv (Some 1) False
        (mat4_lookAt glm (replicate 16 0) [0, 0, -2] [0, 0, 0] [0, 1, 0])),
      GL 0 (UniformMatrix4fv (Some 2) False
        (mat4_perspective glm (replicate 16 0) (toRadian glm 45) (800 / 600) 0.1 1000.1)),
      GL 0 (UniformMatrix4fv (Some 0) False
        (mat4_rotate glm (mat4_identity glm (replicate 16 0)) (mat4_identity glm (replicate 16 0))
           (real 0 / 6000 * (2 * pi)) [0, 1, 0]))]"
    unfolding u by (rule conjunct1)
  from t1 q1 have b: "\<exists>g' pr' out.
      filter is_upload (added (run page glm Part_001 ?w' [])
        (step page glm Part_001 (run page glm Part_001 ?w' []) (Fire 1500))) =
      [GL g' (UniformMatrix4fv (uniformLocation page pr' ''matrixWorld'') False
         (mat4_rotate glm out (mat4_identity glm (replicate 16 0))
            (real 1500 / 6000 * (2 * pi)) [0, 1, 0]))]"
    by blast
  from t2 q2 have c: "filter is_upload
     (added (run page glm Part_001 ?w' [Stop 0, Fire 16])
        (step page glm Part_001 (run page glm Part_001 ?w' [Stop 0, Fire 16]) (Fire 33))) = []"
    by blast
  from a b c q1 q2 page_canvas page_context show ?thesis by blast
qed

section \<open>The order of a frame\<close>

lemma first_frame_last:
  "p \<noteq> Part_000 \<Longrightarrow>
   drop (length (construction_events h m p c g n this now) - 4) (construction_events h m p c g n this now) =
     first_frame h m p g (Suc (Suc n)) this now"
proof -
  assume "p \<noteq> Part_000"
  then obtain pre where "construction_events h m p c g n this now = pre @ first_frame h m p g (Suc (Suc n)) this now"
    by (simp add: construction_events_def)
  moreover have "length (first_frame h m p g (Suc (Suc n)) this now) = 4"
    by (simp add: first_frame_def)
  ultimately show ?thesis by simp
qed

text \<open>
  C8, as the code has it. In every world the process can reach, the frame the browser runs
  next logs: in cube.ts the clear of both buffers, \<open>useProgram\<close>, and the draw of 3 vertices
  from index 0; in part_001 the upload of the world matrix rotated by the angle computed
  from \<open>Date.now()\<close>, then the clear of both buffers, then the same draw; in both, last, the
  request for the next frame when the flag is true. The clear colour of the context is the
  pastel (0.75, 0.85, 0.8, 1) at that time. The first frame, which the constructor runs
  itself, logs the same calls as the last four events of the construction.
\<close>

theorem frame_order:
  assumes "w = run h m p init_world before" and "queue w = cb # q"
    and "w' = step h m p w (Fire now)"
  shows "(\<exists>g. gl (store w (self cb)) = Some g \<and> clear_color (gls w g) = (0.75, 0.85, 0.8, 1) \<and>
      (p = Cube \<longrightarrow>
         added w w' =
           [Callback cb, GL g (Clear {COLOR_BUFFER_BIT, DEPTH_BUFFER_BIT}),
            GL g (UseProgram (program (store w (self cb)))), GL g (DrawArrays TRIANGLES 0 3)] @
           (if running (store w (self cb)) then [RequestAnimationFrame cb] else [])) \<and>
      (p = Part_001 \<longrightarrow>
         (\<exists>out. worldMatrix (store w (self cb)) = Some out \<and>
            added w w' =
              [Callback cb,
               GL g (UniformMatrix4fv (worldAttributeLocation (store w (self cb))) False
                 (mat4_rotate m out (mat4_identity m (replicate 16 0))
                    (real now / 1000 / 6 * 2 * pi) [0, 1, 0])),
               GL g (Clear {COLOR_BUFFER_BIT, DEPTH_BUFFER_BIT}), GL g (DrawArrays TRIANGLES 0 3)] @
              (if running (store w (self cb)) then [RequestAnimationFrame cb] else [])))) \<and>
     (p \<noteq> Part_000 \<and> elementById h ''game-surface'' = Some c \<and> acquired h c = Some g0 \<longrightarrow>
        drop (length (added v (snd (App_new h m p t0 v))) - 4) (added v (snd (App_new h m p t0 v))) =
          first_frame h m p g0 (next_handle v + 2) (next_obj v) t0)"
proof (intro conjI impI)
  have s: "sound h m p w" unfolding assms(1) by (rule sound_reachable)
  with assms(2) have sc: "sound_callback h m p w cb" by (simp add: sound_def)
  show "\<exists>g. gl (store w (self cb)) = Some g \<and> clear_color (gls w g) = (0.75, 0.85, 0.8, 1) \<and>
      (p = Cube \<longrightarrow>
         added w w' =
           [Callback cb, GL g (Clear {COLOR_BUFFER_BIT, DEPTH_BUFFER_BIT}),
            GL g (UseProgram (program (store w (self cb)))), GL g (DrawArrays TRIANGLES 0 3)] @
           (if running (store w (self cb)) then [RequestAnimationFrame cb] else [])) \<and>
      (p = Part_001 \<longrightarrow>
         (\<exists>out. worldMatrix (store w (self cb)) = Some out \<and>
            added w w' =
              [Callback cb,
               GL g (UniformMatrix4fv (worldAttributeLocation (store w (self cb))) False
                 (mat4_rotate m out (mat4_identity m (replicate 16 0))
                    (real now / 1000 / 6 * 2 * pi) [0, 1, 0])),
               GL g (Clear {COLOR_BUFFER_BIT, DEPTH_BUFFER_BIT}), GL g (DrawArrays TRIANGLES 0 3)] @
              (if running (store w (self cb)) then [RequestAnimationFrame cb] else [])))"
  proof (cases cb)
    case (Loop_cube r)
    with sc obtain g where g: "gl (store w r) = Some g" "clear_color (gls w g) = pastel" "p = Cube"
      by (auto simp add: cleared_def split: option.splits)
    have "added w w' = [Callback cb, GL g (Clear {COLOR_BUFFER_BIT, DEPTH_BUFFER_BIT}),
            GL g (UseProgram (program (store w r))), GL g (DrawArrays TRIANGLES 0 3)] @
           (if running (store w r) then [RequestAnimationFrame cb] else [])"
      unfolding assms(3) using assms(2) g(1) Loop_cube
      by (simp add: loop_cube_exec log_def added_def both_buffers_def)
    with g Loop_cube show ?thesis by (intro exI [of _ g]) (simp add: pastel_def)
  next
    case (Loop_part001 r idm)
    with sc obtain g out where g: "gl (store w r) = Some g" "clear_color (gls w g) = pastel"
        "p = Part_001" "idm = mat4_identity m (replicate 16 0)" "worldMatrix (store w r) = Some out"
      by (auto simp add: cleared_def split: option.splits)
    have "added w w' = [Callback cb,
               GL g (UniformMatrix4fv (worldAttributeLocation (store w r)) False
                 (mat4_rotate m out (mat4_identity m (replicate 16 0))
                    (real now / 1000 / 6 * 2 * pi) [0, 1, 0])),
               GL g (Clear {COLOR_BUFFER_BIT, DEPTH_BUFFER_BIT}), GL g (DrawArrays TRIANGLES 0 3)] @
              (if running (store w r) then [RequestAnimationFrame cb] else [])"
      unfolding assms(3) using assms(2) g(1,4,5) Loop_part001
      by (simp add: loop_part001_exec log_def added_def both_buffers_def angle_at_def
          del: replicate.simps)
    with g Loop_part001 show ?thesis
      by (intro exI [of _ g]) (simp add: pastel_def del: replicate.simps)
  qed
next
  assume a: "p \<noteq> Part_000 \<and> elementById h ''game-surface'' = Some c \<and> acquired h c = Some g0"
  then have "snd (App_new h m p t0 v) = built h m p c g0 t0 v" by (simp add: App_new_success)
  with a show "drop (length (added v (snd (App_new h m p t0 v))) - 4) (added v (snd (App_new h m p t0 v))) =
          first_frame h m p g0 (next_handle v + 2) (next_obj v) t0"
    by (simp add: first_frame_last)
qed

theorem frame_order_witness:
  "queue (run page glm Cube init_world [New 0]) = [Loop_cube 0] \<and>
   queue (run page glm Part_001 init_world [New 0]) = [Loop_part001 0 (mat4_identity glm (replicate 16 0))] \<and>
   Cube \<noteq> Part_000 \<and> elementById page ''game-surface'' = Some 0 \<and> acquired page 0 = Some 0 \<and>
   (\<exists>g. clear_color (gls (run page glm Cube init_world [New 0]) g) = (0.75, 0.85, 0.8, 1) \<and>
      added (run page glm Cube init_world [New 0])
        (step page glm Cube (run page glm Cube init_world [New 0]) (Fire 16)) =
      [Callback (Loop_cube 0), GL g (Clear {COLOR_BUFFER_BIT, DEPTH_BUFFER_BIT}),
       GL g (UseProgram (program (store (run page glm Cube init_world [New 0]) 0))),
       GL g (DrawArrays TRIANGLES 0 3)] @
      (if running (store (run page glm Cube init_world [New 0]) 0)
       then [RequestAnimationFrame (Loop_cube 0)] else [])) \<and>
   (\<exists>g out.
      added (run page glm Part_001 init_world [New 0])
        (step page glm Part_001 (run page glm Part_001 init_world [New 0]) (Fire 16)) =
      [Callback (Loop_part001 0 (mat4_identity glm (replicate 16 0))),
       GL g (UniformMatrix4fv (worldAttributeLocation (store (run page glm Part_001 init_world [New 0]) 0))
         False (mat4_rotate glm out (mat4_identity glm (replicate 16 0))
            (real 16 / 1000 / 6 * 2 * pi) [0, 1, 0])),
       GL g (Clear {COLOR_BUFFER_BIT, DEPTH_BUFFER_BIT}), GL g (DrawArrays TRIANGLES 0 3)] @
      (if running (store (run page glm Part_001 init_world [New 0]) 0)
       then [RequestAnimationFrame (Loop_part001 0 (mat4_identity glm (replicate 16 0)))] else [])) \<and>
   drop (length (added init_world (snd (App_new page glm Cube 0 init_world))) - 4)
     (added init_world (snd (App_new page glm Cube 0 init_world))) =
     first_frame page glm Cube 0 (next_handle init_world + 2) (next_obj init_world) 0"
proof -
  let ?cc = "Loop_cube 0"
  let ?cp = "Loop_part001 0 (mat4_identity glm (replicate 16 0))"
  have p: "Cube \<noteq> Part_000" by simp
  have qc: "queue (run page glm Cube init_world [New 0]) = ?cc # []"
    by (simp add: page_new built_simps init_simps)
  have qp: "queue (run page glm Part_001 init_world [New 0]) = ?cp # []"
    by (simp add: page_new built_simps init_simps del: replicate.simps)
  have sc: "self ?cc = 0" and sp: "self ?cp = 0" by simp_all
  note tc = frame_order [OF refl qc refl, where now = 16 and c = 0 and ?g0.0 = 0 and ?t0.0 = 0
      and v = init_world, unfolded sc]
  note tp = frame_order [OF refl qp refl, where now = 16 and c = 0 and ?g0.0 = 0 and ?t0.0 = 0
      and v = init_world, unfolded sp]
  from tc have a: "\<exists>g. clear_color (gls (run page glm Cube init_world [New 0]) g) = (0.75, 0.85, 0.8, 1) \<and>
      added (run page glm Cube init_world [New 0])
        (step page glm Cube (run page glm Cube init_world [New 0]) (Fire 16)) =
      [Callback (Loop_cube 0), GL g (Clear {COLOR_BUFFER_BIT, DEPTH_BUFFER_BIT}),
       GL g (UseProgram (program (store (run page glm Cube init_world [New 0]) 0))),
       GL g (DrawArrays TRIANGLES 0 3)] @
      (if running (store (run page glm Cube init_world [New 0]) 0)
       then [RequestAnimationFrame (Loop_cube 0)] else [])"
    by blast
  from tp have b: "\<exists>g out.
      added (run page glm Part_001 init_world [New 0])
        (step page glm Part_001 (run page glm Part_001 init_world [New 0]) (Fire 16)) =
      [Callback ?cp,
       GL g (UniformMatrix4fv (worldAttributeLocation (store (run page glm Part_001 init_world [New 0]) 0))
         False (mat4_rotate glm out (mat4_identity glm (replicate 16 0))
            (real 16 / 1000 / 6 * 2 * pi) [0, 1, 0])),
       GL g (Clear {COLOR_BUFFER_BIT, DEPTH_BUFFER_BIT}), GL g (DrawArrays TRIANGLES 0 3)] @
      (if running (store (run page glm Part_001 init_world [New 0]) 0)
       then [RequestAnimationFrame ?cp] else [])"
    by blast
  from tc p page_canvas page_context
  have c: "drop (length (added init_world (snd (App_new page glm Cube 0 init_world))) - 4)
     (added init_world (snd (App_new page glm Cube 0 init_world))) =
     first_frame page glm Cube 0 (next_handle init_world + 2) (next_obj init_world) 0"
    by blast
  from a b c qc qp p page_canvas page_context show ?thesis by blast
qed

text \<open>
  C8, as the specification words it, has the clear first. In part_001 the upload comes
  before the clear: the frame after \<open>new App()\<close> on the example page.
\<close>

theorem clear_is_not_first_counterexample:
  "frame_steps (added (run page glm Part_001 init_world [New 0])
     (step page glm Part_001 (run page glm Part_001 init_world [New 0]) (Fire 16))) =
     [Uploaded, Cleared, Drawn] \<and>
   frame_steps (added (run page glm Part_001 init_world [New 0])
     (step page glm Part_001 (run page glm Part_001 init_world [New 0]) (Fire 16))) \<noteq>
     [Cleared, Uploaded, Drawn]"
proof -
  let ?w = "run page glm Part_001 init_world [New 0]"
  have s: "sound page glm Part_001 ?w" by (rule sound_reachable)
  have q: "queue ?w = Loop_part001 0 (mat4_identity glm (replicate 16 0)) # []"
    by (simp add: page_new built_simps init_simps del: replicate.simps)
  from s q obtain r g out pr where
    "step page glm Part_001 ?w (Fire 16) =
       ?w\<lparr>store := (store ?w)(r := (store ?w r)\<lparr>worldMatrix :=
            Some (mat4_rotate glm out (mat4_identity glm (replicate 16 0)) (angle_at 16) [0, 1, 0])\<rparr>),
         trace := trace ?w @ [Callback (Loop_part001 0 (mat4_identity glm (replicate 16 0))),
            GL g (UniformMatrix4fv (worldAttributeLocation (store ?w r)) False
              (mat4_rotate glm out (mat4_identity glm (replicate 16 0)) (angle_at 16) [0, 1, 0])),
            GL g (Clear both_buffers), GL g (DrawArrays TRIANGLES 0 3)] @
            (if running (store ?w r)
             then [RequestAnimationFrame (Loop_part001 0 (mat4_identity glm (replicate 16 0)))] else []),
         queue := [] @ (if running (store ?w r)
             then [Loop_part001 0 (mat4_identity glm (replicate 16 0))] else [])\<rparr>"
    by (rule frame_part001_sound [where now = 16])
  then have "frame_steps (added ?w (step page glm Part_001 ?w (Fire 16))) = [Uploaded, Cleared, Drawn]"
    by (simp add: added_def frame_steps_def map_filter_simps del: replicate.simps run_Cons)
  then show ?thesis by simp
qed

section \<open>Two objects in one process\<close>

lemma App_new_Inr:
  assumes "App_new h m p now w = (Inr r, w')"
  obtains c g where "elementById h ''game-surface'' = Some c" "acquired h c = Some g"
    "r = next_obj w" "w' = built h m p c g now w"
proof (cases "elementById h ''game-surface''")
  case None
  with assms show ?thesis by (simp add: App_new_no_canvas)
next
  case (Some c)
  show ?thesis
  proof (cases "acquired h c")
    case None
    with assms Some show ?thesis by (simp add: App_new_no_context)
  next
    case (Some g)
    with assms \<open>elementById h ''game-surface'' = Some c\<close> show ?thesis
      by (intro that [of c g]) (simp_all add: App_new_success)
  qed
qed

text \<open>
  C5, as the code has it. Two objects constructed one after the other (cube.ts or
  part_001) are two objects with their own fields: the second construction leaves the
  fields of the first alone, their shaders and programs differ, both flags are true, and
  \<open>stop()\<close> on one leaves the fields of the other alone. Their canvas and their context
  are the same: both are found under the fixed id.
\<close>

theorem instances_share_canvas_and_context_only:
  assumes "p \<noteq> Part_000" and "App_new h m p t1 w = (Inr r1, w1)"
    and "App_new h m p t2 w1 = (Inr r2, w2)"
  shows "r1 \<noteq> r2 \<and> store w2 r1 = store w1 r1 \<and>
     canvas (store w2 r1) = canvas (store w2 r2) \<and> canvas (store w2 r1) \<noteq> None \<and>
     gl (store w2 r1) = gl (store w2 r2) \<and> gl (store w2 r1) \<noteq> None \<and>
     vertexShader (store w2 r1) \<noteq> vertexShader (store w2 r2) \<and>
     fragmentShader (store w2 r1) \<noteq> fragmentShader (store w2 r2) \<and>
     program (store w2 r1) \<noteq> program (store w2 r2) \<and>
     running (store w2 r1) \<and> running (store w2 r2) \<and>
     store (snd (stop p r1 w2)) r2 = store w2 r2 \<and>
     store (snd (stop p r2 w2)) r1 = store w2 r1 \<and>
     \<not> running (store (snd (stop p r1 w2)) r1) \<and> running (store (snd (stop p r1 w2)) r2)"
proof -
  from assms(2) obtain c g where one: "elementById h ''game-surface'' = Some c"
    "acquired h c = Some g" "r1 = next_obj w" "w1 = built h m p c g t1 w"
    by (rule App_new_Inr)
  from assms(3) obtain c' g' where two: "elementById h ''game-surface'' = Some c'"
    "acquired h c' = Some g'" "r2 = next_obj w1" "w2 = built h m p c' g' t2 w1"
    by (rule App_new_Inr)
  from one two have same: "c' = c" "g' = g" by simp_all
  have r: "r2 = Suc r1" unfolding two(3) one(4) one(3) by (simp add: built_simps)
  have n: "next_handle w1 = Suc (Suc (Suc (Suc (next_handle w))))"
    unfolding one(4) using assms(1) by (simp add: built_def)
  have a1: "store w1 r1 = built_app h m p c g (next_handle w) t1"
    unfolding one(4) one(3) by (simp add: built_simps)
  have a2: "store w2 r2 = built_app h m p c g (next_handle w1) t2"
    unfolding two(4) two(3) same by (simp add: built_simps)
  have keep: "store w2 r1 = store w1 r1"
    unfolding two(4) using r two(3) by (simp add: built_simps)
  have f1: "canvas (store w2 r1) = Some c" "gl (store w2 r1) = Some g"
    "vertexShader (store w2 r1) = Some (next_handle w)"
    "fragmentShader (store w2 r1) = Some (Suc (next_handle w))"
    "program (store w2 r1) = Some (Suc (Suc (next_handle w)))" "running (store w2 r1)"
    unfolding keep a1 using assms(1) by (simp_all add: built_app_simps)
  have f2: "canvas (store w2 r2) = Some c" "gl (store w2 r2) = Some g"
    "vertexShader (store w2 r2) = Some (Suc (Suc (Suc (Suc (next_handle w)))))"
    "fragmentShader (store w2 r2) = Some (Suc (Suc (Suc (Suc (Suc (next_handle w))))))"
    "program (store w2 r2) = Some (Suc (Suc (Suc (Suc (Suc (Suc (next_handle w)))))))"
    "running (store w2 r2)"
    unfolding a2 n using assms(1) by (simp_all add: built_app_simps)
  have ne: "r1 \<noteq> r2" using r by simp
  have st: "store (snd (stop p r1 w2)) r2 = store w2 r2" "store (snd (stop p r2 w2)) r1 = store w2 r1"
    "\<not> running (store (snd (stop p r1 w2)) r1)"
    using assms(1) ne by (simp_all add: stop_def assign_def)
  from ne keep f1 f2 st show ?thesis by simp
qed

theorem instances_share_canvas_and_context_only_witness:
  "Cube \<noteq> Part_000 \<and>
   App_new page glm Cube 0 init_world = (Inr 0, snd (App_new page glm Cube 0 init_world)) \<and>
   App_new page glm Cube 5 (snd (App_new page glm Cube 0 init_world)) =
     (Inr 1, snd (App_new page glm Cube 5 (snd (App_new page glm Cube 0 init_world)))) \<and>
   canvas (store (snd (App_new page glm Cube 5 (snd (App_new page glm Cube 0 init_world)))) 0) =
     canvas (store (snd (App_new page glm Cube 5 (snd (App_new page glm Cube 0 init_world)))) 1) \<and>
   gl (store (snd (App_new page glm Cube 5 (snd (App_new page glm Cube 0 init_world)))) 0) =
     gl (store (snd (App_new page glm Cube 5 (snd (App_new page glm Cube 0 init_world)))) 1) \<and>
   program (store (snd (App_new page glm Cube 5 (snd (App_new page glm Cube 0 init_world)))) 0) \<noteq>
     program (store (snd (App_new page glm Cube 5 (snd (App_new page glm Cube 0 init_world)))) 1) \<and>
   running (store (snd (stop Cube 0
     (snd (App_new page glm Cube 5 (snd (App_new page glm Cube 0 init_world)))))) 1)"
proof -
  let ?w1 = "snd (App_new page glm Cube 0 init_world)"
  let ?w2 = "snd (App_new page glm Cube 5 ?w1)"
  have p: "Cube \<noteq> Part_000" by simp
  have a: "App_new page glm Cube 0 init_world = (Inr 0, ?w1)"
    by (simp add: page_new init_simps)
  have b: "App_new page glm Cube 5 ?w1 = (Inr 1, ?w2)"
    by (simp add: page_new built_simps init_simps)
  from instances_share_canvas_and_context_only [OF p a b] p a b show ?thesis by blast
qed

text \<open>
  C5, as the specification words it, gives each object its own canvas and context. On the
  example page two constructions give two objects with the one canvas and the one context,
  and the second construction rebinds the array buffer of the context the first draws with.
\<close>

theorem second_instance_shares_canvas_counterexample:
  "canvas (store (run page glm Cube init_world [New 0, New 5]) 0) = Some 0 \<and>
   canvas (store (run page glm Cube init_world [New 0, New 5]) 1) = Some 0 \<and>
   gl (store (run page glm Cube init_world [New 0, New 5]) 0) = Some 0 \<and>
   gl (store (run page glm Cube init_world [New 0, New 5]) 1) = Some 0 \<and>
   array_buffer (gls (run page glm Cube init_world [New 0]) 0) = Some 3 \<and>
   array_buffer (gls (run page glm Cube init_world [New 0, New 5]) 0) = Some 7 \<and>
   \<not> own_handles (store (run page glm Cube init_world [New 0, New 5]) 0)
        (store (run page glm Cube init_world [New 0, New 5]) 1)"
  by (simp add: page_new built_simps built_app_simps built_gl_def built_def init_simps own_handles_def)

section \<open>Where the running flag lives\<close>

lemma frame_touches_worldMatrix_only:
  "store (step h m p w (Fire now)) r = store w r \<or>
   (\<exists>M. store (step h m p w (Fire now)) r = (store w r)\<lparr>worldMatrix := Some M\<rparr>)"
proof (cases rule: step_cases [where i = "Fire now" and h = h and p = p and w = w and m = m])
  case (no_canvas t)
  then show ?thesis by simp
next
  case (no_context t c)
  then show ?thesis by simp
next
  case (constructed t c g)
  then show ?thesis by simp
next
  case (stopped this)
  then show ?thesis by simp
next
  case idle
  show ?thesis unfolding idle by simp
next
  case (aborted t cb q)
  show ?thesis unfolding aborted(4) by simp
next
  case (aborted_late t r' idm q out)
  show ?thesis unfolding aborted_late(5) by (cases "r = r'") auto
next
  case (frame_cube t r' q g)
  show ?thesis unfolding frame_cube(4) by simp
next
  case (frame_part001 t r' idm q g out)
  show ?thesis unfolding frame_part001(5) by (cases "r = r'") auto
qed

lemma construction_touches_new_object_only:
  "r \<noteq> next_obj w \<Longrightarrow> store (snd (App_new h m p now w)) r = store w r"
proof (cases rule: step_cases [where i = "New now" and h = h and p = p and w = w and m = m])
  case (no_canvas t)
  assume "r \<noteq> next_obj w"
  with no_canvas(3) show ?thesis by simp
next
  case (no_context t c)
  assume "r \<noteq> next_obj w"
  with no_context(4) show ?thesis by simp
next
  case (constructed t c g)
  assume "r \<noteq> next_obj w"
  with constructed(4) show ?thesis by (simp add: built_simps)
qed simp_all

text \<open>
  C6, as the code has it. The flag is a field of each object: \<open>stop()\<close> on one object
  leaves every other object as it is and sets the flag of its own object to false; a
  construction leaves every older object as it is and ends with the flag of the new object
  true; a frame changes no flag. The one other field written after construction is
  \<open>worldMatrix\<close> (part_001), by each frame.
\<close>

theorem running_flag_is_a_field_of_each_object:
  "(this \<noteq> other \<longrightarrow> store (snd (stop p this w)) other = store w other) \<and>
   (p \<noteq> Part_000 \<longrightarrow> \<not> running (store (snd (stop p this w)) this)) \<and>
   (r \<noteq> next_obj w \<longrightarrow> store (snd (App_new h m p now w)) r = store w r) \<and>
   (p \<noteq> Part_000 \<and> elementById h ''game-surface'' = Some c \<and> acquired h c = Some g \<longrightarrow>
      running (store (snd (App_new h m p now w)) (next_obj w))) \<and>
   running (store (step h m p w (Fire now)) r) = running (store w r) \<and>
   (store (step h m p w (Fire now)) r = store w r \<or>
    (\<exists>M. store (step h m p w (Fire now)) r = (store w r)\<lparr>worldMatrix := Some M\<rparr>))"
proof (intro conjI impI)
  show "this \<noteq> other \<Longrightarrow> store (snd (stop p this w)) other = store w other"
    by (simp add: stop_def throw_def assign_def)
  show "p \<noteq> Part_000 \<Longrightarrow> \<not> running (store (snd (stop p this w)) this)"
    by (simp add: stop_def assign_def)
  show "r \<noteq> next_obj w \<Longrightarrow> store (snd (App_new h m p now w)) r = store w r"
    by (rule construction_touches_new_object_only)
  show "p \<noteq> Part_000 \<and> elementById h ''game-surface'' = Some c \<and> acquired h c = Some g \<Longrightarrow>
      running (store (snd (App_new h m p now w)) (next_obj w))"
    by (simp add: App_new_success built_simps built_app_simps)
  show "store (step h m p w (Fire now)) r = store w r \<or>
    (\<exists>M. store (step h m p w (Fire now)) r = (store w r)\<lparr>worldMatrix := Some M\<rparr>)"
    by (rule frame_touches_worldMatrix_only)
  from frame_touches_worldMatrix_only [of h m p w now r]
  show "running (store (step h m p w (Fire now)) r) = running (store w r)"
    by auto
qed

theorem running_flag_is_a_field_of_each_object_witness:
  "(0::nat) \<noteq> 1 \<and>
   store (snd (stop Cube 0 (run page glm Cube init_world [New 0, New 5]))) 1 =
     store (run page glm Cube init_world [New 0, New 5]) 1 \<and>
   Cube \<noteq> Part_000 \<and>
   \<not> running (store (snd (stop Cube 0 (run page glm Cube init_world [New 0, New 5]))) 0) \<and>
   0 \<noteq> next_obj (run page glm Cube init_world [New 0]) \<and>
   store (snd (App_new page glm Cube 5 (run page glm Cube init_world [New 0]))) 0 =
     store (run page glm Cube init_world [New 0]) 0 \<and>
   elementById page ''game-surface'' = Some 0 \<and> acquired page 0 = Some 0 \<and>
   running (store (snd (App_new page glm Cube 5 (run page glm Cube init_world [New 0])))
     (next_obj (run page glm Cube init_world [New 0]))) \<and>
   running (store (step page glm Cube (run page glm Cube init_world [New 0]) (Fire 16)) 0) =
     running (store (run page glm Cube init_world [New 0]) 0)"
proof -
  have a: "(0::nat) \<noteq> 1" and p: "Cube \<noteq> Part_000" by simp_all
  have n: "0 \<noteq> next_obj (run page glm Cube init_world [New 0])"
    by (simp add: page_new built_simps init_simps)
  from running_flag_is_a_field_of_each_object [where this = 0 and other = 1 and p = Cube
      and w = "run page glm Cube init_world [New 0, New 5]"]
    a p
  have s: "store (snd (stop Cube 0 (run page glm Cube init_world [New 0, New 5]))) 1 =
       store (run page glm Cube init_world [New 0, New 5]) 1"
    "\<not> running (store (snd (stop Cube 0 (run page glm Cube init_world [New 0, New 5]))) 0)"
    by blast+
  from running_flag_is_a_field_of_each_object [where p = Cube and h = page and m = glm
      and w = "run page glm Cube init_world [New 0]" and r = 0 and now = 5 and c = 0 and g = 0]
    n p page_canvas page_context
  have c: "store (snd (App_new page glm Cube 5 (run page glm Cube init_world [New 0]))) 0 =
       store (run page glm Cube init_world [New 0]) 0"
    "running (store (snd (App_new page glm Cube 5 (run page glm Cube init_world [New 0])))
       (next_obj (run page glm Cube init_world [New 0])))"
    by blast+
  from running_flag_is_a_field_of_each_object [where p = Cube and h = page and m = glm
      and w = "run page glm Cube init_world [New 0]" and r = 0 and now = 16]
  have f: "running (store (step page glm Cube (run page glm Cube init_world [New 0]) (Fire 16)) 0) =
     running (store (run page glm Cube init_world [New 0]) 0)"
    by blast
  from a p n s c f page_canvas page_context show ?thesis by blast
qed

lemma no_turn:
  "mat4_rotate glm out (mat4_identity glm (replicate 16 0)) (angle_at 0) [0, 1, 0] =
     [1, 0, 0, 0,  0, 1, 0, 0,  0, 0, 1, 0,  0, 0, 0, 1]"
  by (simp add: glm_rotate_about_Y angle_at_def)

text \<open>
  C6, as the specification words it, has one flag for the whole process and no other state
  that changes. On the example page, after two constructions and \<open>stop()\<close> on the first
  object, one flag is false and the other true; and in part_001 the world matrix of an
  object differs before and after a frame.
\<close>

theorem flag_is_not_process_wide_counterexample:
  "\<not> running (store (run page glm Cube init_world [New 0, New 5, Stop 0]) 0) \<and>
   running (store (run page glm Cube init_world [New 0, New 5, Stop 0]) 1) \<and>
   \<not> process_wide_flag (run page glm Cube init_world [New 0, New 5, Stop 0]) \<and>
   worldMatrix (store (run page glm Part_001 init_world [New 0]) 0) =
     Some [1, 0, 0, 0,  0, 1, 0, 0,  0, 0, 1, 0,  0, 0, 0, 1] \<and>
   worldMatrix (store (run page glm Part_001 init_world [New 0, Fire 1500]) 0) =
     Some [0, 0, - 1, 0,  0, 1, 0, 0,  1, 0, 0, 0,  0, 0, 0, 1]"
proof -
  let ?w = "run page glm Part_001 init_world [New 0]"
  have flags: "\<not> running (store (run page glm Cube init_world [New 0, New 5, Stop 0]) 0)"
    "running (store (run page glm Cube init_world [New 0, New 5, Stop 0]) 1)"
    "next_obj (run page glm Cube init_world [New 0, New 5, Stop 0]) = Suc (Suc 0)"
    by (simp_all add: page_new built_simps built_app_simps init_simps stop_def assign_def)
  then have not_one: "\<not> process_wide_flag (run page glm Cube init_world [New 0, New 5, Stop 0])"
    unfolding process_wide_flag_def by (simp del: run_Cons)
  have before: "worldMatrix (store ?w 0) = Some [1, 0, 0, 0,  0, 1, 0, 0,  0, 0, 1, 0,  0, 0, 0, 1]"
    by (simp add: page_new built_simps built_app_def init_simps no_turn del: replicate.simps)
  have s: "sound page glm Part_001 ?w" by (rule sound_reachable)
  have q: "queue ?w = Loop_part001 0 (mat4_identity glm (replicate 16 0)) # []"
    by (simp add: page_new built_simps init_simps del: replicate.simps)
  from s q obtain r g out pr where f:
    "Loop_part001 0 (mat4_identity glm (replicate 16 0)) =
       Loop_part001 r (mat4_identity glm (replicate 16 0))"
    "step page glm Part_001 ?w (Fire 1500) =
       ?w\<lparr>store := (store ?w)(r := (store ?w r)\<lparr>worldMatrix :=
            Some (mat4_rotate glm out (mat4_identity glm (replicate 16 0)) (angle_at 1500) [0, 1, 0])\<rparr>),
         trace := trace ?w @ [Callback (Loop_part001 0 (mat4_identity glm (replicate 16 0))),
            GL g (UniformMatrix4fv (worldAttributeLocation (store ?w r)) False
              (mat4_rotate glm out (mat4_identity glm (replicate 16 0)) (angle_at 1500) [0, 1, 0])),
            GL g (Clear both_buffers), GL g (DrawArrays TRIANGLES 0 3)] @
            (if running (store ?w r)
             then [RequestAnimationFrame (Loop_part001 0 (mat4_identity glm (replicate 16 0)))] else []),
         queue := [] @ (if running (store ?w r)
             then [Loop_part001 0 (mat4_identity glm (replicate 16 0))] else [])\<rparr>"
    by (rule frame_part001_sound [where now = 1500])
  from f(1) have r: "r = 0" by simp
  have "run page glm Part_001 init_world [New 0, Fire 1500] = step page glm Part_001 ?w (Fire 1500)"
    by (simp add: run_def)
  then have after: "worldMatrix (store (run page glm Part_001 init_world [New 0, Fire 1500]) 0) =
     Some [0, 0, - 1, 0,  0, 1, 0, 0,  1, 0, 0, 0,  0, 0, 0, 1]"
    unfolding f(2) r angle_at_eq quarter_turn by (simp del: run_Cons)
  from flags(1,2) not_one before after show ?thesis by blast
qed

end
